theory Spec2Isabelle
  imports Main "HOL-Library.AList" "HOL-Library.Word"
begin

section \<open>Structured tags\<close>

text \<open>
  The tag library is an external collaborator. Its values are modelled as a datatype:
  a byte tag holds 8 bits, a short tag 16 bits; an int, a string, a list and a
  compound tag. A compound tag keeps its entries as an association list in
  insertion order; assigning to a key is \<open>AList.update\<close>. A Python \<open>str\<close> placed
  into a compound becomes a \<open>StringTag\<close>, a \<open>bool\<close> a \<open>ByteTag\<close> (0 or 1), an
  \<open>int\<close> an \<open>IntTag\<close>, a \<open>list\<close> a \<open>ListTag\<close>.
\<close>

datatype nbt =
    ByteTag "8 word"
  | ShortTag "16 word"
  | IntTag int
  | StringTag string
  | ListTag "nbt list"
  | CompoundTag "(string \<times> nbt) list"

datatype error = KeyError | ValueError

text \<open>
  The Python constructors \<open>ByteTag(v)\<close> and \<open>ShortTag(v)\<close> take a Python integer.
  A value that fits the tag's width, read as signed or as unsigned, is stored in
  that many bits (so a value above the signed maximum reads back negative when the
  bits are read as signed); any other value raises \<open>ValueError\<close>.
\<close>

definition fits_byte :: "int \<Rightarrow> bool" where
  "fits_byte v = (- 128 \<le> v \<and> v \<le> 255)"

definition fits_short :: "int \<Rightarrow> bool" where
  "fits_short v = (- 32768 \<le> v \<and> v \<le> 65535)"

definition ByteTag_init :: "int \<Rightarrow> error + nbt" where
  "ByteTag_init v = (if fits_byte v then Inr (ByteTag (word_of_int v)) else Inl ValueError)"

definition ShortTag_init :: "int \<Rightarrow> error + nbt" where
  "ShortTag_init v = (if fits_short v then Inr (ShortTag (word_of_int v)) else Inl ValueError)"

definition BoolTag :: "bool \<Rightarrow> nbt" where
  "BoolTag b = ByteTag (if b then 1 else 0)"

text \<open>Reading \<open>tag[key]\<close> from a compound tag; \<open>None\<close> when absent or not a compound.\<close>

fun nbt_get :: "nbt \<Rightarrow> string \<Rightarrow> nbt option" where
  "nbt_get (CompoundTag kvs) k = map_of kvs k"
| "nbt_get _ k = None"

text \<open>
  \<open>tag[k1][k2] = v\<close>: the compound under \<open>k1\<close> is created when missing, then
  \<open>k2\<close> is assigned inside it.
\<close>

definition nested_set :: "(string \<times> nbt) list \<Rightarrow> string \<Rightarrow> string \<Rightarrow> nbt \<Rightarrow> (string \<times> nbt) list" where
  "nested_set tag k1 k2 v =
     (let sub = (case map_of tag k1 of Some (CompoundTag kvs) \<Rightarrow> kvs | _ \<Rightarrow> [])
      in AList.update k1 (CompoundTag (AList.update k2 v sub)) tag)"

section \<open>Item model\<close>

text \<open>
  The item stack and its meta data belong to the host server. They are modelled as
  plain records whose setters store what they are given: a display name and a lore
  are present once set, enchantments are present when the mapping is not empty,
  and \<open>add_enchant\<close> with the force flag assigns the level under the name.
\<close>

record ItemMeta =
  display_name :: "string option"
  lore :: "string list option"
  enchants :: "(string \<times> int) list"

definition has_display_name :: "ItemMeta \<Rightarrow> bool" where
  "has_display_name m = (display_name m \<noteq> None)"

definition has_lore :: "ItemMeta \<Rightarrow> bool" where
  "has_lore m = (lore m \<noteq> None)"

definition has_enchants :: "ItemMeta \<Rightarrow> bool" where
  "has_enchants m = (enchants m \<noteq> [])"

definition add_enchant :: "string \<Rightarrow> int \<Rightarrow> ItemMeta \<Rightarrow> ItemMeta" where
  "add_enchant name level m = m\<lparr>enchants := AList.update name level (enchants m)\<rparr>"

record ItemStack =
  type_id :: string
  amount :: int
  data :: int
  item_meta :: ItemMeta
  item_nbt_payload :: "nbt option"

definition ItemStack_init :: "string \<Rightarrow> int \<Rightarrow> int \<Rightarrow> ItemStack" where
  "ItemStack_init item_type item_amount item_data =
     \<lparr>type_id = item_type, amount = item_amount, data = item_data,
      item_meta = \<lparr>display_name = None, lore = None, enchants = []\<rparr>,
      item_nbt_payload = None\<rparr>"

section \<open>Enchantment code table\<close>

definition ENCHANTMENTS_MAP :: "(string \<times> int) list" where
  "ENCHANTMENTS_MAP =
    [(''protection'', 0),
     (''fire_protection'', 1),
     (''feather_falling'', 2),
     (''blast_protection'', 3),
     (''projectile_protection'', 4),
     (''thorns'', 5),
     (''respiration'', 6),
     (''depth_strider'', 7),
     (''aqua_affinity'', 8),
     (''sharpness'', 9),
     (''smite'', 10),
     (''bane_of_arthropods'', 11),
     (''knockback'', 12),
     (''fire_aspect'', 13),
     (''looting'', 14),
     (''efficiency'', 15),
     (''silk_touch'', 16),
     (''unbreaking'', 17),
     (''fortune'', 18),
     (''power'', 19),
     (''punch'', 20),
     (''flame'', 21),
     (''infinity'', 22),
     (''luck_of_the_sea'', 23),
     (''lure'', 24),
     (''frost_walker'', 25),
     (''mending'', 26),
     (''curse_of_binding'', 27),
     (''curse_of_vanishing'', 28),
     (''impaling'', 29),
     (''riptide'', 30),
     (''loyalty'', 31),
     (''channeling'', 32),
     (''multishot'', 33),
     (''piercing'', 34),
     (''quick_charge'', 35),
     (''soul_speed'', 36),
     (''swift_sneak'', 37),
     (''wind_burst'', 38),
     (''density'', 39),
     (''breach'', 40),
     (''lunge'', 41)]"

section \<open>Form session\<close>

text \<open>
  Callables and plugins are opaque; each is identified by a number. Both
  dictionaries of a form are keyed by Python integers.
\<close>

type_synonym callback = nat
type_synonym plugin_id = nat

record ChestForm =
  title :: string
  large_chest :: bool
  ui_items :: "int \<rightharpoonup> nbt"
  call_backs :: "int \<rightharpoonup> callback"
  plugin :: plugin_id

text \<open>
  The loop over the configured enchantments inside \<open>set_form_slot\<close>. A name outside
  the table is skipped before any tag is built for it; for a name in the table the
  two short tags are built, and either constructor may raise.
\<close>

fun ench_entries :: "(string \<times> int) list \<Rightarrow> error + nbt list" where
  "ench_entries [] = Inr []"
| "ench_entries ((name, level) # rest) =
     (case map_of ENCHANTMENTS_MAP name of
        None \<Rightarrow> ench_entries rest
      | Some ench \<Rightarrow>
          (case ShortTag_init ench of
             Inl e \<Rightarrow> Inl e
           | Inr id_tag \<Rightarrow>
               (case ShortTag_init level of
                  Inl e \<Rightarrow> Inl e
                | Inr lvl_tag \<Rightarrow>
                    (case ench_entries rest of
                       Inl e \<Rightarrow> Inl e
                     | Inr entries \<Rightarrow>
                         Inr (CompoundTag [(''id'', id_tag), (''lvl'', lvl_tag)] # entries)))))"

text \<open>The local \<open>tag\<close> of \<open>set_form_slot\<close>: display name, lore and enchantments.\<close>

definition item_tag :: "ItemMeta \<Rightarrow> error + (string \<times> nbt) list" where
  "item_tag m =
     (let tag0 = [];
          tag1 = (if has_display_name m
                  then nested_set tag0 ''display'' ''Name'' (StringTag (the (display_name m)))
                  else tag0);
          tag2 = (if has_lore m
                  then nested_set tag1 ''display'' ''Lore'' (ListTag (map StringTag (the (lore m))))
                  else tag1)
      in if has_enchants m
         then (case ench_entries (enchants m) of
                 Inl e \<Rightarrow> Inl e
               | Inr entries \<Rightarrow> Inr (AList.update ''ench'' (ListTag entries) tag2))
         else Inr tag2)"

text \<open>
  The local \<open>item_nbt\<close> of \<open>set_form_slot\<close>: the encoding of one slot. The tags are
  built in the order of the source; the first constructor that raises ends the
  encoding.
\<close>

definition item_nbt :: "int \<Rightarrow> ItemStack option \<Rightarrow> error + nbt" where
  "item_nbt index item =
     (case item of
        None \<Rightarrow> Inr (CompoundTag [])
      | Some it \<Rightarrow>
          (let slot = (if index \<ge> 27 then index - 27 else index)
           in case ByteTag_init (amount it) of
                Inl e \<Rightarrow> Inl e
              | Inr count_tag \<Rightarrow>
                  (case ShortTag_init (data it) of
                     Inl e \<Rightarrow> Inl e
                   | Inr damage_tag \<Rightarrow>
                       (case ByteTag_init slot of
                          Inl e \<Rightarrow> Inl e
                        | Inr slot_tag \<Rightarrow>
                            (let base = [(''Count'', count_tag),
                                         (''Damage'', damage_tag),
                                         (''Name'', StringTag (type_id it)),
                                         (''WasPickedUp'', BoolTag False),
                                         (''Slot'', slot_tag)]
                             in case item_tag (item_meta it) of
                                  Inl e \<Rightarrow> Inl e
                                | Inr tag \<Rightarrow>
                                    if tag \<noteq> []
                                    then Inr (CompoundTag
                                                (AList.update ''tag'' (CompoundTag tag) base))
                                    else Inr (CompoundTag base))))))"

text \<open>
  \<open>set_form_slot\<close> mutates the form only in its last three lines, after the
  encoding: when a tag constructor raises, the form is as it was. \<open>Inl\<close> is the
  exception; \<open>Inr\<close> is the form after the call.
\<close>

definition set_form_slot ::
  "ChestForm \<Rightarrow> int \<Rightarrow> ItemStack option \<Rightarrow> callback option \<Rightarrow> error + ChestForm" where
  "set_form_slot form index item callback =
     (case item_nbt index item of
        Inl e \<Rightarrow> Inl e
      | Inr encoded \<Rightarrow>
          (let form1 = form\<lparr>ui_items := (ui_items form)(index \<mapsto> encoded)\<rparr>
           in case callback of
                None \<Rightarrow> Inr form1
              | Some cb \<Rightarrow> Inr (form1\<lparr>call_backs := (call_backs form1)(index \<mapsto> cb)\<rparr>)))"

text \<open>The form object after a call that may have raised.\<close>

definition form_after :: "ChestForm \<Rightarrow> error + ChestForm \<Rightarrow> ChestForm" where
  "form_after form r = (case r of Inl e \<Rightarrow> form | Inr form' \<Rightarrow> form')"

text \<open>\<open>range(n)\<close> over Python integers.\<close>

definition py_range :: "int \<Rightarrow> int list" where
  "py_range n = [0..n - 1]"

text \<open>
  The constructor: the fields are set, then every one of the 54 slots is set to no
  item and no callback. Registering the packet listener on the plugin is the host's
  event subscription; the listener itself is \<open>on_incoming_packet\<close> below.
\<close>

definition ChestForm_new :: "plugin_id \<Rightarrow> string \<Rightarrow> bool \<Rightarrow> ChestForm" where
  "ChestForm_new plg ttl large =
     \<lparr>title = ttl, large_chest = large, ui_items = Map.empty,
      call_backs = Map.empty, plugin = plg\<rparr>"

fun init_slots :: "int list \<Rightarrow> ChestForm \<Rightarrow> error + ChestForm" where
  "init_slots [] form = Inr form"
| "init_slots (index # rest) form =
     (case set_form_slot form index None None of
        Inl e \<Rightarrow> Inl e
      | Inr form' \<Rightarrow> init_slots rest form')"

definition ChestForm_init :: "plugin_id \<Rightarrow> string \<Rightarrow> bool \<Rightarrow> error + ChestForm" where
  "ChestForm_init plg ttl large = init_slots (py_range 54) (ChestForm_new plg ttl large)"

definition set_title :: "ChestForm \<Rightarrow> string \<Rightarrow> ChestForm" where
  "set_title form ttl = form\<lparr>title := ttl\<rparr>"

definition set_slot ::
  "ChestForm \<Rightarrow> int \<Rightarrow> string \<Rightarrow> callback option \<Rightarrow> int \<Rightarrow> int \<Rightarrow> string option \<Rightarrow>
   string list option \<Rightarrow> (string \<times> int) list option \<Rightarrow> nbt option \<Rightarrow> error + ChestForm" where
  "set_slot form slot item_type callback item_amount item_data dname lre enchs nbt_arg =
     (let item = ItemStack_init item_type item_amount item_data;
          meta = item_meta item;
          meta1 = (case dname of None \<Rightarrow> meta | Some n \<Rightarrow> meta\<lparr>display_name := Some n\<rparr>);
          meta2 = (case lre of None \<Rightarrow> meta1 | Some l \<Rightarrow> meta1\<lparr>lore := Some l\<rparr>);
          meta3 = (case enchs of
                     None \<Rightarrow> meta2
                   | Some es \<Rightarrow> fold (\<lambda>(name, level) m. add_enchant name level m) es meta2);
          item1 = item\<lparr>item_meta := meta3\<rparr>;
          item2 = (case nbt_arg of None \<Rightarrow> item1 | Some n \<Rightarrow> item1\<lparr>item_nbt_payload := Some n\<rparr>)
      in set_form_slot form slot (Some item2) callback)"

text \<open>
  \<open>fill_slots\<close>: the loop stops at the first \<open>set_slot\<close> that raises; the slots set
  before it stay set, so the exception carries the form reached.
\<close>

fun fill_loop ::
  "int list \<Rightarrow> string \<Rightarrow> int \<Rightarrow> int \<Rightarrow> string option \<Rightarrow> string list option \<Rightarrow>
   (string \<times> int) list option \<Rightarrow> nbt option \<Rightarrow> ChestForm \<Rightarrow> (error \<times> ChestForm) + ChestForm" where
  "fill_loop [] item_type item_amount item_data dname lre enchs nbt_arg form = Inr form"
| "fill_loop (index # rest) item_type item_amount item_data dname lre enchs nbt_arg form =
     (case set_slot form index item_type None item_amount item_data dname lre enchs nbt_arg of
        Inl e \<Rightarrow> Inl (e, form)
      | Inr form' \<Rightarrow> fill_loop rest item_type item_amount item_data dname lre enchs nbt_arg form')"

definition fill_slots ::
  "ChestForm \<Rightarrow> string \<Rightarrow> int \<Rightarrow> int \<Rightarrow> string option \<Rightarrow>
   string list option \<Rightarrow> (string \<times> int) list option \<Rightarrow> nbt option \<Rightarrow> (error \<times> ChestForm) + ChestForm" where
  "fill_slots form item_type item_amount item_data dname lre enchs nbt_arg =
     fill_loop (py_range 54) item_type item_amount item_data dname lre enchs nbt_arg form"

section \<open>Players, packets and the dispatcher state\<close>

datatype DimensionType = OVERWORLD | NETHER | THE_END | CUSTOM

text \<open>
  What the code reads from a player: the identity, the block position and the
  dimension kind of the location, and the runtime id of the real block at a
  coordinate of the player's dimension
  (\<open>player.dimension.get_block_at(x, y, z).data.runtime_id\<close>).
\<close>

record Player =
  unique_id :: nat
  block_x :: int
  block_y :: int
  block_z :: int
  dimension_type :: DimensionType
  get_block_at :: "int \<Rightarrow> int \<Rightarrow> int \<Rightarrow> int"

datatype NetworkBlockPosition = NetworkBlockPosition int int int

datatype MinecraftPacketIds =
  UpdateBlock | BlockActorData | ItemStackRequest | ContainerClose | ContainerOpen

datatype packet =
    UpdateBlockPacket NetworkBlockPosition int int int
  | BlockActorDataPacket NetworkBlockPosition nbt
  | ContainerOpenPacket int int NetworkBlockPosition int
  | ContainerClosePacket int int bool

datatype ItemStackRequestActionType = Take | Place | Swap | Drop | Destroy | Consume | Create

record action =
  action_type :: ItemStackRequestActionType
  source_net_id :: int
  source_slot :: int

record request =
  request_actions :: "action list"

text \<open>
  Forms are objects shared by reference: the caller keeps configuring a form that a
  registry entry points to. The state holds them in a store indexed by a reference.
\<close>

type_synonym form_ref = nat

datatype FormData = FormData (fd_form: form_ref) (fd_x: int) (fd_y: int) (fd_z: int)

text \<open>
  The two closures handed to the scheduler: \<open>open_chest\<close> of \<open>send_to\<close>, and the
  lambda of \<open>handle_chest_callback\<close> that looks the callback up and calls it.
\<close>

datatype task =
    open_chest form_ref nat int int int
  | invoke_callback form_ref nat int

record state =
  forms :: "form_ref \<Rightarrow> ChestForm"
  runtime_forms :: "(nat \<times> FormData) list"
  sent :: "(nat \<times> MinecraftPacketIds \<times> packet) list"
  scheduled :: "(task \<times> int \<times> plugin_id) list"
  invoked :: "(callback \<times> nat \<times> int) list"

definition send_packet :: "Player \<Rightarrow> MinecraftPacketIds \<Rightarrow> packet \<Rightarrow> state \<Rightarrow> state" where
  "send_packet player pid pkt s = s\<lparr>sent := sent s @ [(unique_id player, pid, pkt)]\<rparr>"

definition send_packet_to :: "nat \<Rightarrow> MinecraftPacketIds \<Rightarrow> packet \<Rightarrow> state \<Rightarrow> state" where
  "send_packet_to uuid pid pkt s = s\<lparr>sent := sent s @ [(uuid, pid, pkt)]\<rparr>"

definition run_delay_task :: "task \<Rightarrow> int \<Rightarrow> plugin_id \<Rightarrow> state \<Rightarrow> state" where
  "run_delay_task t delay plg s = s\<lparr>scheduled := scheduled s @ [(t, delay, plg)]\<rparr>"

section \<open>Presentation\<close>

definition update_chest_block ::
  "ChestForm \<Rightarrow> Player \<Rightarrow> int \<Rightarrow> int \<Rightarrow> int \<Rightarrow> bool \<Rightarrow> state \<Rightarrow> state" where
  "update_chest_block form player x y z is_close s =
     (let block_runtime_id0 = 741882976;
          block_runtime_id1 = (if is_close then get_block_at player x y z else block_runtime_id0);
          s1 = send_packet player UpdateBlock
                 (UpdateBlockPacket (NetworkBlockPosition x y z) block_runtime_id1 3 0) s
      in if large_chest form
         then (let block_runtime_id2 =
                     (if is_close then get_block_at player (x + 1) y z else block_runtime_id1)
               in send_packet player UpdateBlock
                    (UpdateBlockPacket (NetworkBlockPosition (x + 1) y z) block_runtime_id2 3 0) s1)
         else s1)"

text \<open>
  \<open>form.ui_items[index]\<close> for each index of a loop, in order; a missing key raises
  \<open>KeyError\<close>, which is \<open>None\<close> here.
\<close>

fun collect_items :: "(int \<rightharpoonup> nbt) \<Rightarrow> int list \<Rightarrow> nbt list option" where
  "collect_items m [] = Some []"
| "collect_items m (i # rest) =
     (case m i of
        None \<Rightarrow> None
      | Some v \<Rightarrow> (case collect_items m rest of None \<Rightarrow> None | Some vs \<Rightarrow> Some (v # vs)))"

definition block_nbt_init :: "ChestForm \<Rightarrow> int \<Rightarrow> int \<Rightarrow> int \<Rightarrow> (string \<times> nbt) list" where
  "block_nbt_init form x y z =
     [(''CustomName'', StringTag (title form)),
      (''Findable'', BoolTag False),
      (''id'', StringTag ''Chest''),
      (''isMovable'', BoolTag True),
      (''x'', IntTag x),
      (''y'', IntTag y),
      (''z'', IntTag z),
      (''pairx'', IntTag (x + 1)),
      (''pairz'', IntTag z),
      (''pairlead'', BoolTag True),
      (''Items'', ListTag [])]"

text \<open>
  An exception leaves the function with the effects made so far: the left summand
  carries the error and the state reached when it was raised.
\<close>

definition update_chest_block_actor ::
  "ChestForm \<Rightarrow> Player \<Rightarrow> int \<Rightarrow> int \<Rightarrow> int \<Rightarrow> state \<Rightarrow> (error \<times> state) + state" where
  "update_chest_block_actor form player x y z s =
     (let block_nbt0 = block_nbt_init form x y z
      in case collect_items (ui_items form) (py_range 27) of
           None \<Rightarrow> Inl (KeyError, s)
         | Some items1 \<Rightarrow>
             (let block_nbt1 = AList.update ''Items'' (ListTag items1) block_nbt0;
                  s1 = send_packet player BlockActorData
                         (BlockActorDataPacket (NetworkBlockPosition x y z) (CompoundTag block_nbt1)) s
              in if large_chest form
                 then (let block_nbt2 = AList.update ''x'' (IntTag (x + 1)) block_nbt1;
                           block_nbt3 = AList.update ''pairx'' (IntTag x) block_nbt2;
                           block_nbt4 = AList.update ''pairlead'' (BoolTag False) block_nbt3
                       in case collect_items (ui_items form) (map (\<lambda>index. index + 27) (py_range 27)) of
                            None \<Rightarrow> Inl (KeyError, s1)
                          | Some items2 \<Rightarrow>
                              Inr (send_packet player BlockActorData
                                     (BlockActorDataPacket (NetworkBlockPosition (x + 1) y z)
                                        (CompoundTag (AList.update ''Items'' (ListTag items2) block_nbt4)))
                                     s1))
                 else Inr s1))"

text \<open>The height chosen by \<open>send_to\<close> from the player's dimension kind and block height.\<close>

definition anchor_y :: "DimensionType \<Rightarrow> int \<Rightarrow> int" where
  "anchor_y d player_y =
     (let y = player_y + 4
      in if (d = OVERWORLD \<and> y > 319) \<or> (d = NETHER \<and> y > 127) \<or> (d = THE_END \<and> y > 255)
         then player_y - 3
         else y)"

definition send_to :: "form_ref \<Rightarrow> Player \<Rightarrow> state \<Rightarrow> (error \<times> state) + state" where
  "send_to self player s =
     (let form = forms s self;
          x = block_x player;
          y = anchor_y (dimension_type player) (block_y player);
          z = block_z player;
          s1 = update_chest_block form player x y z False s
      in case update_chest_block_actor form player x y z s1 of
           Inl e \<Rightarrow> Inl e
         | Inr s2 \<Rightarrow>
             Inr (run_delay_task (open_chest self (unique_id player) x y z) 10 (plugin form) s2))"

section \<open>Session registry and interaction dispatcher\<close>

text \<open>
  The registry is a dictionary keyed by the player's identity: assignment is
  \<open>AList.update\<close>, \<open>del\<close> is \<open>AList.delete\<close>, lookup is \<open>map_of\<close>.
\<close>

definition add_runtime_form :: "nat \<Rightarrow> FormData \<Rightarrow> state \<Rightarrow> state" where
  "add_runtime_form uuid d s = s\<lparr>runtime_forms := AList.update uuid d (runtime_forms s)\<rparr>"

text \<open>
  The body run for a take action on a slot with a callback: close packet, revert to
  the real blocks, removal of the registry entry, and the deferred callback.
\<close>

definition close_and_dispatch :: "Player \<Rightarrow> form_ref \<Rightarrow> FormData \<Rightarrow> int \<Rightarrow> state \<Rightarrow> state" where
  "close_and_dispatch player fref d index s =
     (let form = forms s fref;
          uuid = unique_id player;
          s1 = send_packet player ContainerClose (ContainerClosePacket 114 0 True) s;
          s2 = update_chest_block form player (fd_x d) (fd_y d) (fd_z d) True s1;
          s3 = s2\<lparr>runtime_forms := AList.delete uuid (runtime_forms s2)\<rparr>
      in run_delay_task (invoke_callback fref uuid index) 2 (plugin form) s3)"

text \<open>
  The two nested loops of \<open>handle_chest_callback\<close>. \<open>Some s'\<close> is the \<open>return\<close>
  inside the loop, with the state it leaves; \<open>None\<close> is the loop running to its end.
\<close>

fun actions_loop :: "Player \<Rightarrow> FormData \<Rightarrow> action list \<Rightarrow> state \<Rightarrow> state option" where
  "actions_loop player d [] s = None"
| "actions_loop player d (a # rest) s =
     (if action_type a = Take \<and> source_net_id a = 0
      then (let index = source_slot a
            in if call_backs (forms s (fd_form d)) index \<noteq> None
               then Some (close_and_dispatch player (fd_form d) d index s)
               else actions_loop player d rest s)
      else actions_loop player d rest s)"

fun requests_loop :: "Player \<Rightarrow> FormData \<Rightarrow> request list \<Rightarrow> state \<Rightarrow> state option" where
  "requests_loop player d [] s = None"
| "requests_loop player d (req # rest) s =
     (case actions_loop player d (request_actions req) s of
        Some s' \<Rightarrow> Some s'
      | None \<Rightarrow> requests_loop player d rest s)"

text \<open>The payload is taken decoded: the list of requests of the item-stack request packet.\<close>

definition handle_chest_callback :: "Player \<Rightarrow> request list \<Rightarrow> state \<Rightarrow> state" where
  "handle_chest_callback player request_data s =
     (case map_of (runtime_forms s) (unique_id player) of
        None \<Rightarrow> s
      | Some d \<Rightarrow>
          (case requests_loop player d request_data s of
             Some s' \<Rightarrow> s'
           | None \<Rightarrow> s))"

text \<open>The payload is taken decoded: the container id of the close packet.\<close>

definition handle_chest_close :: "Player \<Rightarrow> int \<Rightarrow> state \<Rightarrow> state" where
  "handle_chest_close player container_id s =
     (if container_id = 114
      then (case map_of (runtime_forms s) (unique_id player) of
              None \<Rightarrow> s
            | Some d \<Rightarrow>
                (let form = forms s (fd_form d);
                     s1 = update_chest_block form player (fd_x d) (fd_y d) (fd_z d) True s
                 in s1\<lparr>runtime_forms := AList.delete (unique_id player) (runtime_forms s1)\<rparr>))
      else s)"

datatype inbound =
    ItemStackRequestPayload "request list"
  | ContainerClosePayload int
  | OtherPayload

definition on_incoming_packet :: "Player \<Rightarrow> inbound \<Rightarrow> state \<Rightarrow> state" where
  "on_incoming_packet player payload s =
     (case payload of
        ItemStackRequestPayload request_data \<Rightarrow> handle_chest_callback player request_data s
      | ContainerClosePayload container_id \<Rightarrow> handle_chest_close player container_id s
      | OtherPayload \<Rightarrow> s)"

text \<open>Running a scheduled closure.\<close>

fun run_task :: "task \<Rightarrow> state \<Rightarrow> (error \<times> state) + state" where
  "run_task (open_chest self uuid x y z) s =
     Inr (add_runtime_form uuid (FormData self x y z)
            (send_packet_to uuid ContainerOpen
               (ContainerOpenPacket 114 0 (NetworkBlockPosition x y z) (- 1)) s))"
| "run_task (invoke_callback fref uuid index) s =
     (case call_backs (forms s fref) index of
        None \<Rightarrow> Inl (KeyError, s)
      | Some cb \<Rightarrow> Inr (s\<lparr>invoked := invoked s @ [(cb, uuid, index)]\<rparr>))"

text \<open>
  What can happen to the system, one event at a time: the caller configures a form
  or presents it, the client sends a packet, the scheduler runs a pending closure.
  An exception ends the event and keeps the effects made before it.
\<close>

datatype event =
    EvSetTitle form_ref string
  | EvSetSlot form_ref int string "callback option" int int "string option"
      "string list option" "(string \<times> int) list option" "nbt option"
  | EvSendTo form_ref Player
  | EvReceive Player inbound
  | EvRunTask nat

definition settle :: "(error \<times> state) + state \<Rightarrow> state" where
  "settle r = (case r of Inl (e, s) \<Rightarrow> s | Inr s \<Rightarrow> s)"

fun step :: "event \<Rightarrow> state \<Rightarrow> state" where
  "step (EvSetTitle fref ttl) s = s\<lparr>forms := (forms s)(fref := set_title (forms s fref) ttl)\<rparr>"
| "step (EvSetSlot fref slot item_type cb item_amount item_data dname lre enchs nbt_arg) s =
     s\<lparr>forms := (forms s)(fref :=
          form_after (forms s fref)
            (set_slot (forms s fref) slot item_type cb item_amount item_data dname lre enchs nbt_arg))\<rparr>"
| "step (EvSendTo fref player) s = settle (send_to fref player s)"
| "step (EvReceive player payload) s = on_incoming_packet player payload s"
| "step (EvRunTask n) s =
     (if n < length (scheduled s)
      then settle (run_task (fst (scheduled s ! n))
                     (s\<lparr>scheduled := take n (scheduled s) @ drop (Suc n) (scheduled s)\<rparr>))
      else s)"

definition run :: "event list \<Rightarrow> state \<Rightarrow> state" where
  "run evs s = fold step evs s"

definition initial_state :: "(form_ref \<Rightarrow> ChestForm) \<Rightarrow> state" where
  "initial_state fs = \<lparr>forms = fs, runtime_forms = [], sent = [], scheduled = [], invoked = []\<rparr>"

section \<open>Predicates and sample data used in the statements\<close>

text \<open>Every enchantment whose name is in the code table has a level that a short tag accepts.\<close>

definition levels_fit :: "(string \<times> int) list \<Rightarrow> bool" where
  "levels_fit es = (\<forall>(name, level)\<in>set es. map_of ENCHANTMENTS_MAP name \<noteq> None \<longrightarrow> fits_short level)"

text \<open>The enchantments held by the item that \<open>set_slot\<close> builds from its \<open>enchants\<close> argument.\<close>

definition slot_enchants :: "(string \<times> int) list option \<Rightarrow> (string \<times> int) list" where
  "slot_enchants enchs =
     (case enchs of
        None \<Rightarrow> []
      | Some es \<Rightarrow> fold (\<lambda>(name, level) al. AList.update name level al) es [])"

text \<open>The amount, aux value and enchantment levels given to \<open>set_slot\<close> are accepted by their tags.\<close>

definition item_fits :: "int \<Rightarrow> int \<Rightarrow> (string \<times> int) list option \<Rightarrow> bool" where
  "item_fits item_amount item_data enchs =
     (fits_byte item_amount \<and> fits_short item_data \<and> levels_fit (slot_enchants enchs))"

text \<open>The form that the constructor returns.\<close>

definition constructed :: "plugin_id \<Rightarrow> string \<Rightarrow> bool \<Rightarrow> ChestForm" where
  "constructed plg ttl large = form_after (ChestForm_new plg ttl large) (ChestForm_init plg ttl large)"

text \<open>Every key that presentation reads is present in the slot mapping of a form.\<close>

definition slots_present :: "ChestForm \<Rightarrow> bool" where
  "slots_present f = (\<forall>i\<in>set (py_range 54). ui_items f i \<noteq> None)"

text \<open>
  A double-chest form with callbacks on slots 10 and 11, a player, and a state in
  which the form is presented to that player.
\<close>

definition example_form :: ChestForm where
  "example_form =
     form_after
       (form_after (constructed 0 ''Shop'' True)
          (set_slot (constructed 0 ''Shop'' True) 10 ''minecraft:diamond'' (Some 7) 5 0
             None None None None))
       (set_slot
          (form_after (constructed 0 ''Shop'' True)
             (set_slot (constructed 0 ''Shop'' True) 10 ''minecraft:diamond'' (Some 7) 5 0
                None None None None))
          11 ''minecraft:emerald'' (Some 8) 1 0 None None None None)"

definition example_player :: Player where
  "example_player =
     \<lparr>unique_id = 1, block_x = 10, block_y = 64, block_z = - 5,
      dimension_type = OVERWORLD, get_block_at = (\<lambda>x y z. x + 100)\<rparr>"

definition example_state :: state where
  "example_state =
     \<lparr>forms = (\<lambda>r. example_form), runtime_forms = [(1, FormData 0 10 68 (- 5))],
      sent = [], scheduled = [], invoked = []\<rparr>"

text \<open>No player identity occurs twice among the keys of the registry.\<close>

definition keys_distinct :: "state \<Rightarrow> bool" where
  "keys_distinct s = distinct (map fst (runtime_forms s))"

section \<open>Configuration and encoding\<close>

lemma ByteTag_init_fits: "fits_byte v \<Longrightarrow> ByteTag_init v = Inr (ByteTag (word_of_int v))"
  by (simp add: ByteTag_init_def)

lemma ByteTag_init_raises: "\<not> fits_byte v \<Longrightarrow> ByteTag_init v = Inl ValueError"
  by (simp add: ByteTag_init_def)

lemma ShortTag_init_fits: "fits_short v \<Longrightarrow> ShortTag_init v = Inr (ShortTag (word_of_int v))"
  by (simp add: ShortTag_init_def)

lemma ShortTag_init_raises: "\<not> fits_short v \<Longrightarrow> ShortTag_init v = Inl ValueError"
  by (simp add: ShortTag_init_def)

lemma tag_init_error:
  "ByteTag_init v = Inl e \<Longrightarrow> e = ValueError"
  "ShortTag_init v = Inl e \<Longrightarrow> e = ValueError"
  by (auto simp: ByteTag_init_def ShortTag_init_def split: if_splits)

lemma table_codes_fit: "map_of ENCHANTMENTS_MAP name = Some ench \<Longrightarrow> fits_short ench"
proof -
  assume "map_of ENCHANTMENTS_MAP name = Some ench"
  then have "(name, ench) \<in> set ENCHANTMENTS_MAP" by (rule map_of_SomeD)
  then have "0 \<le> ench \<and> ench \<le> 41" unfolding ENCHANTMENTS_MAP_def by auto
  then show ?thesis by (simp add: fits_short_def)
qed

lemma ench_entries_error: "ench_entries es = Inl e \<Longrightarrow> e = ValueError"
  by (induction es arbitrary: e rule: ench_entries.induct)
     (auto split: option.splits sum.splits dest: tag_init_error)

lemma ench_entries_returns: "levels_fit es \<Longrightarrow> \<exists>ts. ench_entries es = Inr ts"
proof (induction es rule: ench_entries.induct)
  case 1
  then show ?case by simp
next
  case (2 name level rest)
  from "2.prems" have r: "levels_fit rest" by (simp add: levels_fit_def)
  show ?case
  proof (cases "map_of ENCHANTMENTS_MAP name")
    case None
    then show ?thesis using "2.IH"(1) r by simp
  next
    case (Some ench)
    have l: "fits_short level" using "2.prems" Some by (simp add: levels_fit_def)
    have i: "fits_short ench" using Some by (rule table_codes_fit)
    obtain ts where "ench_entries rest = Inr ts"
      using "2.IH"(2) [OF Some ShortTag_init_fits [OF i] ShortTag_init_fits [OF l] r] by blast
    then show ?thesis using Some by (simp add: ShortTag_init_fits i l)
  qed
qed

lemma ench_entries_raises: "\<not> levels_fit es \<Longrightarrow> ench_entries es = Inl ValueError"
proof (induction es rule: ench_entries.induct)
  case 1
  then show ?case by (simp add: levels_fit_def)
next
  case (2 name level rest)
  show ?case
  proof (cases "map_of ENCHANTMENTS_MAP name")
    case None
    then have "\<not> levels_fit rest" using "2.prems" by (simp add: levels_fit_def)
    then show ?thesis using "2.IH"(1) None by simp
  next
    case (Some ench)
    have i: "fits_short ench" using Some by (rule table_codes_fit)
    show ?thesis
    proof (cases "fits_short level")
      case False
      then show ?thesis using Some by (simp add: ShortTag_init_fits i ShortTag_init_raises)
    next
      case True
      then have "\<not> levels_fit rest" using "2.prems" by (simp add: levels_fit_def)
      then have "ench_entries rest = Inl ValueError"
        using "2.IH"(2) [OF Some ShortTag_init_fits [OF i] ShortTag_init_fits [OF True]] by blast
      then show ?thesis using Some True by (simp add: ShortTag_init_fits i)
    qed
  qed
qed

lemma ench_entries_set:
  "ench_entries es = Inr ts \<Longrightarrow>
   set ts =
     {CompoundTag [(''id'', ShortTag (word_of_int i)), (''lvl'', ShortTag (word_of_int l))] | n l i.
        (n, l) \<in> set es \<and> map_of ENCHANTMENTS_MAP n = Some i}"
proof (induction es arbitrary: ts rule: ench_entries.induct)
  case 1
  then show ?case by simp
next
  case (2 name level rest)
  show ?case
  proof (cases "map_of ENCHANTMENTS_MAP name")
    case None
    then have "ench_entries rest = Inr ts" using "2.prems" by simp
    then show ?thesis using "2.IH"(1) [OF None] None by auto
  next
    case (Some ench)
    have i: "fits_short ench" using Some by (rule table_codes_fit)
    have l: "fits_short level"
      using "2.prems" Some by (auto simp: ShortTag_init_def i split: if_splits sum.splits)
    obtain ts' where ts': "ench_entries rest = Inr ts'"
      and ts: "ts = CompoundTag [(''id'', ShortTag (word_of_int ench)),
                                 (''lvl'', ShortTag (word_of_int level))] # ts'"
      using "2.prems" Some by (auto simp: ShortTag_init_fits i l split: sum.splits)
    have "set ts' =
       {CompoundTag [(''id'', ShortTag (word_of_int i)), (''lvl'', ShortTag (word_of_int l))] | n l i.
          (n, l) \<in> set rest \<and> map_of ENCHANTMENTS_MAP n = Some i}"
      using "2.IH"(2) [OF Some ShortTag_init_fits [OF i] ShortTag_init_fits [OF l] ts'] .
    then show ?thesis using ts Some by auto
  qed
qed


lemma map_of_nested_set_other:
  "k \<noteq> k1 \<Longrightarrow> map_of (nested_set tag k1 k2 v) k = map_of tag k"
  by (simp add: nested_set_def Let_def update_conv')

lemma item_tag_error: "item_tag m = Inl e \<Longrightarrow> e = ValueError"
  by (auto simp: item_tag_def Let_def split: if_splits sum.splits dest: ench_entries_error)

lemma item_tag_no_enchants: "enchants m = [] \<Longrightarrow> \<exists>tg. item_tag m = Inr tg \<and> map_of tg ''ench'' = None"
  by (simp add: item_tag_def Let_def has_enchants_def map_of_nested_set_other)

lemma item_tag_enchants:
  "enchants m \<noteq> [] \<Longrightarrow> ench_entries (enchants m) = Inr ts \<Longrightarrow>
   \<exists>tg. item_tag m = Inr tg \<and> tg \<noteq> [] \<and> map_of tg ''ench'' = Some (ListTag ts)"
  by (simp add: item_tag_def Let_def has_enchants_def update_conv')

lemma item_tag_returns: "levels_fit (enchants m) \<Longrightarrow> \<exists>tg. item_tag m = Inr tg"
proof (cases "enchants m = []")
  case True
  then show ?thesis using item_tag_no_enchants by blast
next
  case False
  assume "levels_fit (enchants m)"
  then obtain ts where "ench_entries (enchants m) = Inr ts" using ench_entries_returns by blast
  then show ?thesis using item_tag_enchants [OF False] by blast
qed

lemma item_tag_raises: "\<not> levels_fit (enchants m) \<Longrightarrow> item_tag m = Inl ValueError"
proof -
  assume a: "\<not> levels_fit (enchants m)"
  then have "enchants m \<noteq> []" by (auto simp: levels_fit_def)
  then show ?thesis using ench_entries_raises [OF a] by (simp add: item_tag_def Let_def has_enchants_def)
qed

lemma item_nbt_None: "item_nbt index None = Inr (CompoundTag [])"
  by (simp add: item_nbt_def)

lemma item_nbt_error: "item_nbt index item = Inl e \<Longrightarrow> e = ValueError"
  by (auto simp: item_nbt_def Let_def split: option.splits sum.splits if_splits
      dest: tag_init_error item_tag_error)

lemma item_nbt_Some:
  assumes "fits_byte (amount it)" and "fits_short (data it)"
    and "fits_byte (if index \<ge> 27 then index - 27 else index)"
    and "item_tag (item_meta it) = Inr tg"
  shows "item_nbt index (Some it) =
     Inr (CompoundTag ([(''Count'', ByteTag (word_of_int (amount it))),
                        (''Damage'', ShortTag (word_of_int (data it))),
                        (''Name'', StringTag (type_id it)),
                        (''WasPickedUp'', ByteTag 0),
                        (''Slot'', ByteTag (word_of_int (if index \<ge> 27 then index - 27 else index)))] @
                       (if tg \<noteq> [] then [(''tag'', CompoundTag tg)] else [])))"
  using assms by (simp add: item_nbt_def Let_def BoolTag_def ByteTag_init_fits ShortTag_init_fits)

lemma item_nbt_raises:
  assumes "\<not> fits_byte (amount it) \<or> \<not> fits_short (data it) \<or>
           \<not> fits_byte (if index \<ge> 27 then index - 27 else index) \<or>
           \<not> levels_fit (enchants (item_meta it))"
  shows "item_nbt index (Some it) = Inl ValueError"
proof (cases "item_nbt index (Some it)")
  case (Inl e)
  then show ?thesis using item_nbt_error by blast
next
  case (Inr t)
  then have "fits_byte (amount it) \<and> fits_short (data it) \<and>
      fits_byte (if index \<ge> 27 then index - 27 else index)"
    by (auto simp: item_nbt_def Let_def ByteTag_init_def ShortTag_init_def split: sum.splits if_splits)
  moreover have "levels_fit (enchants (item_meta it))"
  proof (rule ccontr)
    assume "\<not> levels_fit (enchants (item_meta it))"
    then have "item_tag (item_meta it) = Inl ValueError" by (rule item_tag_raises)
    then show False using Inr by (auto simp: item_nbt_def Let_def split: sum.splits)
  qed
  ultimately show ?thesis using assms by blast
qed

lemma item_nbt_ignores_payload:
  "item_nbt index (Some (it\<lparr>item_nbt_payload := p\<rparr>)) = item_nbt index (Some it)"
  by (simp add: item_nbt_def Let_def cong: sum.case_cong)

lemma set_form_slot_Inl: "item_nbt index item = Inl e \<Longrightarrow> set_form_slot f index item cb = Inl e"
  by (simp add: set_form_slot_def)

lemma set_form_slot_Inr:
  "item_nbt index item = Inr t \<Longrightarrow>
   \<exists>f'. set_form_slot f index item cb = Inr f' \<and>
        ui_items f' = (ui_items f)(index \<mapsto> t) \<and>
        call_backs f' = (case cb of None \<Rightarrow> call_backs f | Some c \<Rightarrow> (call_backs f)(index \<mapsto> c)) \<and>
        title f' = title f \<and> large_chest f' = large_chest f \<and> plugin f' = plugin f"
  by (simp add: set_form_slot_def Let_def split: option.splits)

lemma set_form_slot_InrD:
  "set_form_slot f index item cb = Inr f' \<Longrightarrow>
   \<exists>t. item_nbt index item = Inr t \<and>
        ui_items f' = (ui_items f)(index \<mapsto> t) \<and>
        call_backs f' = (case cb of None \<Rightarrow> call_backs f | Some c \<Rightarrow> (call_backs f)(index \<mapsto> c)) \<and>
        title f' = title f \<and> large_chest f' = large_chest f \<and> plugin f' = plugin f"
  by (auto simp: set_form_slot_def Let_def split: option.splits sum.splits)

lemma init_slots_returns:
  "\<exists>f'. init_slots xs f = Inr f' \<and>
        ui_items f' = (\<lambda>i. if i \<in> set xs then Some (CompoundTag []) else ui_items f i) \<and>
        call_backs f' = call_backs f \<and> title f' = title f \<and>
        large_chest f' = large_chest f \<and> plugin f' = plugin f"
proof (induction xs arbitrary: f)
  case Nil
  then show ?case by simp
next
  case (Cons x xs)
  obtain f1 where f1: "set_form_slot f x None None = Inr f1"
    and u1: "ui_items f1 = (ui_items f)(x \<mapsto> CompoundTag [])"
    and o1: "call_backs f1 = call_backs f" "title f1 = title f"
            "large_chest f1 = large_chest f" "plugin f1 = plugin f"
    using set_form_slot_Inr [OF item_nbt_None, of f x None] by auto
  obtain f' where f': "init_slots xs f1 = Inr f'"
    and u': "ui_items f' = (\<lambda>i. if i \<in> set xs then Some (CompoundTag []) else ui_items f1 i)"
    and o': "call_backs f' = call_backs f1" "title f' = title f1"
            "large_chest f' = large_chest f1" "plugin f' = plugin f1"
    using Cons [of f1] by blast
  show ?case
    using f1 f' u' o' o1 by (auto simp: u1)
qed

lemma ChestForm_init_constructed:
  "ChestForm_init plg ttl large = Inr (constructed plg ttl large)"
  using init_slots_returns [of "py_range 54" "ChestForm_new plg ttl large"]
  by (auto simp: constructed_def ChestForm_init_def form_after_def)

lemma constructed_fields:
  "ui_items (constructed plg ttl large) i =
     (if 0 \<le> i \<and> i < 54 then Some (CompoundTag []) else None)"
  "call_backs (constructed plg ttl large) = Map.empty"
  "title (constructed plg ttl large) = ttl"
  "large_chest (constructed plg ttl large) = large"
  "plugin (constructed plg ttl large) = plg"
  using init_slots_returns [of "py_range 54" "ChestForm_new plg ttl large"]
  by (auto simp: constructed_def ChestForm_init_def form_after_def py_range_def ChestForm_new_def)

lemma fold_add_enchant:
  "enchants (fold (\<lambda>(name, level) m. add_enchant name level m) es m) =
     fold (\<lambda>(name, level) al. AList.update name level al) es (enchants m) \<and>
   display_name (fold (\<lambda>(name, level) m. add_enchant name level m) es m) = display_name m \<and>
   lore (fold (\<lambda>(name, level) m. add_enchant name level m) es m) = lore m"
  by (induction es arbitrary: m) (auto simp: add_enchant_def)

lemma set_slot_item:
  "\<exists>it. set_slot f i ty cb am da dn lo en nb = set_form_slot f i (Some it) cb \<and>
        type_id it = ty \<and> amount it = am \<and> data it = da \<and>
        display_name (item_meta it) = dn \<and> lore (item_meta it) = lo \<and>
        enchants (item_meta it) = slot_enchants en"
  unfolding set_slot_def Let_def slot_enchants_def
  by (rule exI, rule conjI, rule refl)
     (simp add: ItemStack_init_def fold_add_enchant split: option.splits)

lemma slot_rebase: "0 \<le> index \<Longrightarrow> index < 54 \<Longrightarrow>
  (if index \<ge> 27 then index - 27 else index) = index mod (27::int)"
  by presburger

lemma slot_fits: "fits_byte (if index \<ge> 27 then index - 27 else index) \<longleftrightarrow> - 128 \<le> index \<and> index \<le> 282"
  by (auto simp: fits_byte_def)

lemma set_slot_returns:
  assumes "item_fits am da en" and "- 128 \<le> i" and "i \<le> 282"
  shows "\<exists>f' it t. set_slot f i ty cb am da dn lo en nb = Inr f' \<and>
        item_nbt i (Some it) = Inr t \<and>
        type_id it = ty \<and> amount it = am \<and> data it = da \<and>
        display_name (item_meta it) = dn \<and> lore (item_meta it) = lo \<and>
        enchants (item_meta it) = slot_enchants en \<and>
        ui_items f' = (ui_items f)(i \<mapsto> t) \<and>
        call_backs f' = (case cb of None \<Rightarrow> call_backs f | Some c \<Rightarrow> (call_backs f)(i \<mapsto> c)) \<and>
        title f' = title f \<and> large_chest f' = large_chest f \<and> plugin f' = plugin f"
proof -
  obtain it where it: "set_slot f i ty cb am da dn lo en nb = set_form_slot f i (Some it) cb"
    and fl: "type_id it = ty" "amount it = am" "data it = da"
        "display_name (item_meta it) = dn" "lore (item_meta it) = lo"
        "enchants (item_meta it) = slot_enchants en"
    using set_slot_item by blast
  have "levels_fit (enchants (item_meta it))" using assms(1) fl by (simp add: item_fits_def)
  then obtain tg where tg: "item_tag (item_meta it) = Inr tg" using item_tag_returns by blast
  have s: "fits_byte (if i \<ge> 27 then i - 27 else i)" using assms(2,3) by (simp add: slot_fits)
  have a: "fits_byte (amount it)" "fits_short (data it)" using assms(1) fl by (simp_all add: item_fits_def)
  obtain t where t: "item_nbt i (Some it) = Inr t"
    using item_nbt_Some [OF a s tg] by blast
  show ?thesis using set_form_slot_Inr [OF t, of f cb] it fl t by auto
qed

lemma set_slot_raises:
  assumes "\<not> item_fits am da en \<or> i < - 128 \<or> 282 < i"
  shows "set_slot f i ty cb am da dn lo en nb = Inl ValueError"
proof -
  obtain it where it: "set_slot f i ty cb am da dn lo en nb = set_form_slot f i (Some it) cb"
    and fl: "amount it = am" "data it = da" "enchants (item_meta it) = slot_enchants en"
    using set_slot_item by blast
  have "\<not> fits_byte (amount it) \<or> \<not> fits_short (data it) \<or>
        \<not> fits_byte (if i \<ge> 27 then i - 27 else i) \<or> \<not> levels_fit (enchants (item_meta it))"
    using assms fl by (auto simp: item_fits_def slot_fits)
  then have "item_nbt i (Some it) = Inl ValueError" by (rule item_nbt_raises)
  then show ?thesis using it by (simp add: set_form_slot_Inl)
qed


lemma byte_unsigned: "0 \<le> v \<Longrightarrow> v \<le> 255 \<Longrightarrow> uint (word_of_int v :: 8 word) = v"
  by (simp add: uint_word_of_int)

lemma short_signed: "- 32768 \<le> v \<Longrightarrow> v \<le> 32767 \<Longrightarrow> sint (word_of_int v :: 16 word) = v"
  by (simp add: int_word_sint)

lemma short_wraps:
  assumes "32767 < v" and "v \<le> 65535"
  shows "sint (word_of_int v :: 16 word) = v - 65536"
proof -
  have "(v + 32768) mod 65536 = (v - 32768) mod 65536"
    using mod_add_self2 [of "v - 32768" 65536] by (simp add: add.commute)
  also have "\<dots> = v - 32768" using assms by simp
  finally show ?thesis by (simp add: int_word_sint)
qed

text \<open>
  Claim C2, as stated for every slot, fails: a stack count of 256 is refused by the
  byte tag, so the slot has no encoding and \<open>set_form_slot\<close> raises without storing
  anything; an aux value of 40000 is accepted by the short tag, and the Damage
  field then reads -25536 as a 2-byte signed value.
\<close>

theorem slot_value_out_of_tag_counterexample:
  "item_nbt 0 (Some (ItemStack_init ''minecraft:diamond'' 256 0)) = Inl ValueError \<and>
   set_form_slot (constructed 0 ''ChestUI'' True) 0
     (Some (ItemStack_init ''minecraft:diamond'' 256 0)) None = Inl ValueError \<and>
   item_nbt 0 (Some (ItemStack_init ''minecraft:diamond'' 1 40000)) =
     Inr (CompoundTag [(''Count'', ByteTag 1), (''Damage'', ShortTag (word_of_int 40000)),
                       (''Name'', StringTag ''minecraft:diamond''),
                       (''WasPickedUp'', ByteTag 0), (''Slot'', ByteTag 0)]) \<and>
   sint (word_of_int 40000 :: 16 word) = - 25536"
  by (simp add: item_nbt_def set_form_slot_def ItemStack_init_def ByteTag_init_def ShortTag_init_def
        fits_byte_def fits_short_def item_tag_def has_display_name_def has_lore_def
        has_enchants_def BoolTag_def)

text \<open>
  Claim C2, amended. For a raw slot index in [0, 54), an empty slot is encoded as
  the empty compound tag. A slot whose stack count and aux value are accepted by
  their tags (count in [-128, 255], aux value in [-32768, 65535]) and whose
  table-known enchantment levels are accepted by a short tag is encoded as Count
  (the stack count in 1 byte), Damage (the aux value in 2 bytes), Name (the item
  type identifier), WasPickedUp = false and Slot (the raw index modulo 27 in
  1 byte), in that order, followed by nothing or by the single entry \<open>tag\<close>;
  \<open>set_form_slot\<close> stores that encoding at the index. The Count byte read unsigned
  is the stack count when the count is in [0, 255]; the Damage short read signed is
  the aux value when it is in [-32768, 32767], and the aux value minus 65536 above
  that; the Slot byte is the raw index modulo 27. A stack count or an aux value
  that its tag does not accept makes the encoding raise \<open>ValueError\<close>, and
  \<open>set_form_slot\<close> raises with it.
\<close>

theorem encode_slot_fields:
  assumes "0 \<le> index" and "index < 54"
  shows "item_nbt index None = Inr (CompoundTag []) \<and>
   (fits_byte (amount it) \<and> fits_short (data it) \<and> levels_fit (enchants (item_meta it)) \<longrightarrow>
      (\<exists>extra f'.
         item_nbt index (Some it) =
           Inr (CompoundTag ([(''Count'', ByteTag (word_of_int (amount it))),
                              (''Damage'', ShortTag (word_of_int (data it))),
                              (''Name'', StringTag (type_id it)),
                              (''WasPickedUp'', ByteTag 0),
                              (''Slot'', ByteTag (word_of_int (index mod 27)))] @ extra)) \<and>
         (extra = [] \<or> (\<exists>tg. extra = [(''tag'', CompoundTag tg)])) \<and>
         set_form_slot form index (Some it) cb = Inr f' \<and>
         ui_items f' index =
           Some (CompoundTag ([(''Count'', ByteTag (word_of_int (amount it))),
                               (''Damage'', ShortTag (word_of_int (data it))),
                               (''Name'', StringTag (type_id it)),
                               (''WasPickedUp'', ByteTag 0),
                               (''Slot'', ByteTag (word_of_int (index mod 27)))] @ extra)))) \<and>
   (0 \<le> amount it \<and> amount it \<le> 255 \<longrightarrow> uint (word_of_int (amount it) :: 8 word) = amount it) \<and>
   (- 32768 \<le> data it \<and> data it \<le> 32767 \<longrightarrow> sint (word_of_int (data it) :: 16 word) = data it) \<and>
   (32767 < data it \<and> data it \<le> 65535 \<longrightarrow>
      sint (word_of_int (data it) :: 16 word) = data it - 65536) \<and>
   uint (word_of_int (index mod 27) :: 8 word) = index mod 27 \<and>
   (\<not> fits_byte (amount it) \<or> \<not> fits_short (data it) \<longrightarrow>
      item_nbt index (Some it) = Inl ValueError \<and>
      set_form_slot form index (Some it) cb = Inl ValueError)"
proof -
  have m: "(if index \<ge> 27 then index - 27 else index) = index mod 27"
    using assms by (rule slot_rebase)
  have r: "0 \<le> index mod 27 \<and> index mod 27 < 27"
    by simp
  have sb: "fits_byte (index mod 27)" using r unfolding fits_byte_def by linarith
  have 1: "item_nbt index None = Inr (CompoundTag [])" by (rule item_nbt_None)
  have 2: "fits_byte (amount it) \<and> fits_short (data it) \<and> levels_fit (enchants (item_meta it)) \<longrightarrow>
      (\<exists>extra f'.
         item_nbt index (Some it) =
           Inr (CompoundTag ([(''Count'', ByteTag (word_of_int (amount it))),
                              (''Damage'', ShortTag (word_of_int (data it))),
                              (''Name'', StringTag (type_id it)),
                              (''WasPickedUp'', ByteTag 0),
                              (''Slot'', ByteTag (word_of_int (index mod 27)))] @ extra)) \<and>
         (extra = [] \<or> (\<exists>tg. extra = [(''tag'', CompoundTag tg)])) \<and>
         set_form_slot form index (Some it) cb = Inr f' \<and>
         ui_items f' index =
           Some (CompoundTag ([(''Count'', ByteTag (word_of_int (amount it))),
                               (''Damage'', ShortTag (word_of_int (data it))),
                               (''Name'', StringTag (type_id it)),
                               (''WasPickedUp'', ByteTag 0),
                               (''Slot'', ByteTag (word_of_int (index mod 27)))] @ extra)))"
  proof
    assume h: "fits_byte (amount it) \<and> fits_short (data it) \<and> levels_fit (enchants (item_meta it))"
    then obtain tg where tg: "item_tag (item_meta it) = Inr tg" using item_tag_returns by blast
    have s: "fits_byte (if index \<ge> 27 then index - 27 else index)" using sb m by simp
    let ?extra = "if tg \<noteq> [] then [(''tag'', CompoundTag tg)] else []"
    let ?t = "CompoundTag ([(''Count'', ByteTag (word_of_int (amount it))),
                              (''Damage'', ShortTag (word_of_int (data it))),
                              (''Name'', StringTag (type_id it)),
                              (''WasPickedUp'', ByteTag 0),
                              (''Slot'', ByteTag (word_of_int (index mod 27)))] @ ?extra)"
    have e: "item_nbt index (Some it) = Inr ?t"
      using item_nbt_Some [of it index tg] h s tg m by simp
    obtain f' where f': "set_form_slot form index (Some it) cb = Inr f'"
      and u: "ui_items f' = (ui_items form)(index \<mapsto> ?t)"
      using set_form_slot_Inr [OF e, of form cb] by blast
    show "\<exists>extra f'.
         item_nbt index (Some it) =
           Inr (CompoundTag ([(''Count'', ByteTag (word_of_int (amount it))),
                              (''Damage'', ShortTag (word_of_int (data it))),
                              (''Name'', StringTag (type_id it)),
                              (''WasPickedUp'', ByteTag 0),
                              (''Slot'', ByteTag (word_of_int (index mod 27)))] @ extra)) \<and>
         (extra = [] \<or> (\<exists>tg. extra = [(''tag'', CompoundTag tg)])) \<and>
         set_form_slot form index (Some it) cb = Inr f' \<and>
         ui_items f' index =
           Some (CompoundTag ([(''Count'', ByteTag (word_of_int (amount it))),
                               (''Damage'', ShortTag (word_of_int (data it))),
                               (''Name'', StringTag (type_id it)),
                               (''WasPickedUp'', ByteTag 0),
                               (''Slot'', ByteTag (word_of_int (index mod 27)))] @ extra))"
      by (rule exI [of _ ?extra], rule exI [of _ f']) (simp add: e f' u)
  qed
  have 3: "0 \<le> amount it \<and> amount it \<le> 255 \<longrightarrow> uint (word_of_int (amount it) :: 8 word) = amount it"
    using byte_unsigned by blast
  have 4: "- 32768 \<le> data it \<and> data it \<le> 32767 \<longrightarrow> sint (word_of_int (data it) :: 16 word) = data it"
    using short_signed by blast
  have 5: "32767 < data it \<and> data it \<le> 65535 \<longrightarrow>
      sint (word_of_int (data it) :: 16 word) = data it - 65536"
    using short_wraps by blast
  have 6: "uint (word_of_int (index mod 27) :: 8 word) = index mod 27"
    using r by (intro byte_unsigned) linarith+
  have 7: "\<not> fits_byte (amount it) \<or> \<not> fits_short (data it) \<longrightarrow>
      item_nbt index (Some it) = Inl ValueError \<and>
      set_form_slot form index (Some it) cb = Inl ValueError"
  proof
    assume "\<not> fits_byte (amount it) \<or> \<not> fits_short (data it)"
    then have "item_nbt index (Some it) = Inl ValueError" by (intro item_nbt_raises) blast
    then show "item_nbt index (Some it) = Inl ValueError \<and>
      set_form_slot form index (Some it) cb = Inl ValueError"
      by (simp add: set_form_slot_Inl)
  qed
  from 1 2 3 4 5 6 7 show ?thesis by blast
qed


text \<open>Raw index 30 with five diamonds: local slot 3.\<close>

theorem encode_slot_fields_witness:
  "item_nbt 30 None = Inr (CompoundTag []) \<and>
   item_nbt 30 (Some (ItemStack_init ''minecraft:diamond'' 5 0)) =
     Inr (CompoundTag [(''Count'', ByteTag 5), (''Damage'', ShortTag 0),
                       (''Name'', StringTag ''minecraft:diamond''),
                       (''WasPickedUp'', ByteTag 0), (''Slot'', ByteTag 3)]) \<and>
   uint (5 :: 8 word) = 5 \<and> sint (0 :: 16 word) = 0 \<and> uint (3 :: 8 word) = 3"
  using encode_slot_fields [of 30 "ItemStack_init ''minecraft:diamond'' 5 0"
          "constructed 0 ''ChestUI'' True" None]
  by (simp add: item_nbt_def ItemStack_init_def item_tag_def has_display_name_def has_lore_def
        has_enchants_def BoolTag_def ByteTag_init_def ShortTag_init_def fits_byte_def fits_short_def)

text \<open>
  Claim C3, as stated, fails: index 54 lies outside [0, 54), and \<open>set_slot\<close> on a
  fresh double-chest form returns normally and changes both the slot mapping and
  the callback mapping at 54.
\<close>

theorem set_slot_out_of_range_counterexample:
  "\<not> isl (set_slot (constructed 0 ''ChestUI'' True) 54 ''minecraft:diamond'' (Some 7) 1 0
             None None None None) \<and>
   ui_items (form_after (constructed 0 ''ChestUI'' True)
      (set_slot (constructed 0 ''ChestUI'' True) 54 ''minecraft:diamond'' (Some 7) 1 0
         None None None None)) 54
     \<noteq> ui_items (constructed 0 ''ChestUI'' True) 54 \<and>
   call_backs (form_after (constructed 0 ''ChestUI'' True)
      (set_slot (constructed 0 ''ChestUI'' True) 54 ''minecraft:diamond'' (Some 7) 1 0
         None None None None)) 54
     \<noteq> call_backs (constructed 0 ''ChestUI'' True) 54"
proof -
  have "item_fits 1 0 None"
    by (simp add: item_fits_def fits_byte_def fits_short_def levels_fit_def slot_enchants_def)
  then obtain f' t where "set_slot (constructed 0 ''ChestUI'' True) 54 ''minecraft:diamond'' (Some 7) 1 0
             None None None None = Inr f'"
    and "ui_items f' = (ui_items (constructed 0 ''ChestUI'' True))(54 \<mapsto> t)"
    and "call_backs f' = (call_backs (constructed 0 ''ChestUI'' True))(54 \<mapsto> 7)"
    using set_slot_returns [of 1 0 None 54 "constructed 0 ''ChestUI'' True" "''minecraft:diamond''"
            "Some 7" None None None]
    by auto
  then show ?thesis by (simp add: form_after_def constructed_fields)
qed

text \<open>
  Claim C3, amended. \<open>set_slot\<close> does not compare the index with the layout. For an
  index in [-128, 282], inside or outside the layout, and an item whose amount, aux
  value and enchantment levels are accepted by their tags, it returns normally,
  stores the encoding of the configured item at that index and, when a callback is
  given, registers it there; nothing else in the two mappings changes. An index
  below -128 or above 282 is rejected with \<open>ValueError\<close>, raised by the byte tag of
  the re-based slot number before anything is stored: the form is unchanged.
\<close>

theorem set_slot_index_unchecked:
  "(- 128 \<le> index \<and> index \<le> 282 \<and> item_fits am da en \<longrightarrow>
      (\<exists>f' it t. set_slot f index ty cb am da dn lo en nb = Inr f' \<and>
         item_nbt index (Some it) = Inr t \<and>
         type_id it = ty \<and> amount it = am \<and> data it = da \<and>
         ui_items f' = (ui_items f)(index \<mapsto> t) \<and>
         call_backs f' =
           (case cb of None \<Rightarrow> call_backs f | Some c \<Rightarrow> (call_backs f)(index \<mapsto> c)))) \<and>
   (index < - 128 \<or> 282 < index \<longrightarrow>
      set_slot f index ty cb am da dn lo en nb = Inl ValueError \<and>
      form_after f (set_slot f index ty cb am da dn lo en nb) = f)"
proof (intro conjI impI)
  assume "- 128 \<le> index \<and> index \<le> 282 \<and> item_fits am da en"
  then show "\<exists>f' it t. set_slot f index ty cb am da dn lo en nb = Inr f' \<and>
         item_nbt index (Some it) = Inr t \<and>
         type_id it = ty \<and> amount it = am \<and> data it = da \<and>
         ui_items f' = (ui_items f)(index \<mapsto> t) \<and>
         call_backs f' =
           (case cb of None \<Rightarrow> call_backs f | Some c \<Rightarrow> (call_backs f)(index \<mapsto> c))"
    using set_slot_returns [of am da en index f ty cb dn lo nb] by blast
next
  assume a: "index < - 128 \<or> 282 < index"
  then show r: "set_slot f index ty cb am da dn lo en nb = Inl ValueError"
    by (intro set_slot_raises) blast
  then show "form_after f (set_slot f index ty cb am da dn lo en nb) = f"
    by (simp add: form_after_def)
qed

text \<open>Index 54 is stored; index 283 is refused.\<close>

theorem set_slot_index_unchecked_witness:
  "(\<exists>f' t. set_slot (constructed 0 ''ChestUI'' True) 54 ''minecraft:diamond'' (Some 7) 1 0
              None None None None = Inr f' \<and>
      ui_items f' = (ui_items (constructed 0 ''ChestUI'' True))(54 \<mapsto> t) \<and>
      call_backs f' = (call_backs (constructed 0 ''ChestUI'' True))(54 \<mapsto> 7)) \<and>
   set_slot (constructed 0 ''ChestUI'' True) 283 ''minecraft:diamond'' (Some 7) 1 0
     None None None None = Inl ValueError"
proof -
  have "item_fits 1 0 None"
    by (simp add: item_fits_def fits_byte_def fits_short_def levels_fit_def slot_enchants_def)
  then show ?thesis
    using set_slot_index_unchecked [of 54 1 0 None "constructed 0 ''ChestUI'' True"
            "''minecraft:diamond''" "Some 7" None None None]
          set_slot_index_unchecked [of 283 1 0 None "constructed 0 ''ChestUI'' True"
            "''minecraft:diamond''" "Some 7" None None None]
    by auto
qed

text \<open>
  Claim C4, as stated, fails: after registering callback 7 at slot 3, a
  \<open>set_slot\<close> on slot 3 with no callback returns normally and leaves callback 7
  registered.
\<close>

theorem set_slot_no_callback_counterexample:
  "\<not> isl (set_slot (constructed 0 ''ChestUI'' True) 3 ''minecraft:diamond'' (Some 7) 1 0
             None None None None) \<and>
   \<not> isl (set_slot
             (form_after (constructed 0 ''ChestUI'' True)
                (set_slot (constructed 0 ''ChestUI'' True) 3 ''minecraft:diamond'' (Some 7) 1 0
                   None None None None))
             3 ''minecraft:stone'' None 1 0 None None None None) \<and>
   call_backs
     (form_after
        (form_after (constructed 0 ''ChestUI'' True)
           (set_slot (constructed 0 ''ChestUI'' True) 3 ''minecraft:diamond'' (Some 7) 1 0
              None None None None))
        (set_slot
           (form_after (constructed 0 ''ChestUI'' True)
              (set_slot (constructed 0 ''ChestUI'' True) 3 ''minecraft:diamond'' (Some 7) 1 0
                 None None None None))
           3 ''minecraft:stone'' None 1 0 None None None None)) 3 = Some 7"
proof -
  have fit: "item_fits 1 0 None"
    by (simp add: item_fits_def fits_byte_def fits_short_def levels_fit_def slot_enchants_def)
  obtain f1 where f1: "set_slot (constructed 0 ''ChestUI'' True) 3 ''minecraft:diamond'' (Some 7) 1 0
             None None None None = Inr f1"
    and c1: "call_backs f1 = (call_backs (constructed 0 ''ChestUI'' True))(3 \<mapsto> 7)"
    using set_slot_returns [OF fit, of 3 "constructed 0 ''ChestUI'' True" "''minecraft:diamond''"
            "Some 7" None None None]
    by auto
  obtain f2 where f2: "set_slot f1 3 ''minecraft:stone'' None 1 0 None None None None = Inr f2"
    and c2: "call_backs f2 = call_backs f1"
    using set_slot_returns [OF fit, of 3 f1 "''minecraft:stone''" None None None None]
    by auto
  show ?thesis by (simp add: f1 f2 c1 c2 form_after_def)
qed

text \<open>
  Claim C4, amended. For a valid slot index (within the layout of the form) and an
  item whose amount, aux value and enchantment levels are accepted by their tags,
  \<open>set_slot\<close> with a callback returns normally and registers the callback at the
  index; \<open>set_slot\<close> with no callback returns normally and leaves the callback
  mapping as it was, so a callback registered earlier at that index stays
  registered.
\<close>

theorem set_slot_callback_registration:
  assumes "0 \<le> index" and "index < (if large_chest f then 54 else 27)" and "item_fits am da en"
  shows "(\<exists>f'. set_slot f index ty (Some c) am da dn lo en nb = Inr f' \<and>
              call_backs f' index = Some c) \<and>
         (\<exists>f'. set_slot f index ty None am da dn lo en nb = Inr f' \<and>
              call_backs f' = call_backs f)"
proof -
  have lo: "- 128 \<le> index" using assms(1) by simp
  have hi: "index \<le> 282" using assms(2) by (simp split: if_splits)
  show ?thesis
    using set_slot_returns [OF assms(3) lo hi, of f ty "Some c" dn lo nb]
          set_slot_returns [OF assms(3) lo hi, of f ty None dn lo nb]
    by auto
qed

text \<open>Slot 3 of a fresh double-chest form, with and without a callback.\<close>

theorem set_slot_callback_registration_witness:
  "(\<exists>f'. set_slot (constructed 0 ''ChestUI'' True) 3 ''minecraft:diamond'' (Some 7) 1 0
            None None None None = Inr f' \<and> call_backs f' 3 = Some 7) \<and>
   (\<exists>f'. set_slot (constructed 0 ''ChestUI'' True) 3 ''minecraft:diamond'' None 1 0
            None None None None = Inr f' \<and> call_backs f' = Map.empty)"
proof -
  have fit: "item_fits 1 0 None"
    by (simp add: item_fits_def fits_byte_def fits_short_def levels_fit_def slot_enchants_def)
  show ?thesis
    using set_slot_callback_registration [of 3 "constructed 0 ''ChestUI'' True" 1 0 None
            "''minecraft:diamond''" 7 None None None] fit
    by (simp add: constructed_fields)
qed

text \<open>
  Claim C5 at a concrete input: \<open>set_slot\<close> with the extra payload
  \<open>{Unbreakable: 1}\<close> returns normally, and the slot is encoded with the five
  standard fields only; the payload is stored on the item and never read by the
  encoder.
\<close>

theorem set_slot_nbt_payload_dropped:
  "\<not> isl (set_slot (constructed 0 ''ChestUI'' True) 0 ''minecraft:diamond'' None 1 0 None None None
             (Some (CompoundTag [(''Unbreakable'', ByteTag 1)]))) \<and>
   ui_items (form_after (constructed 0 ''ChestUI'' True)
      (set_slot (constructed 0 ''ChestUI'' True) 0 ''minecraft:diamond'' None 1 0 None None None
         (Some (CompoundTag [(''Unbreakable'', ByteTag 1)])))) 0 =
     Some (CompoundTag [(''Count'', ByteTag 1), (''Damage'', ShortTag 0),
                        (''Name'', StringTag ''minecraft:diamond''),
                        (''WasPickedUp'', ByteTag 0), (''Slot'', ByteTag 0)])"
  by (simp add: set_slot_def set_form_slot_def Let_def item_nbt_def ItemStack_init_def item_tag_def
        has_display_name_def has_lore_def has_enchants_def BoolTag_def form_after_def
        ByteTag_init_def ShortTag_init_def fits_byte_def fits_short_def)


section \<open>Enchantments\<close>

lemma sharpness_code: "map_of ENCHANTMENTS_MAP ''sharpness'' = Some 9"
  by (simp add: ENCHANTMENTS_MAP_def)

lemma telekinesis_unknown: "map_of ENCHANTMENTS_MAP ''telekinesis'' = None"
  by (simp add: ENCHANTMENTS_MAP_def)

lemma item_nbt_ench:
  assumes "enchants (item_meta it) \<noteq> []" and "levels_fit (enchants (item_meta it))"
    and "fits_byte (amount it)" and "fits_short (data it)"
    and "- 128 \<le> index" and "index \<le> 282"
  shows "\<exists>t ts. item_nbt index (Some it) = Inr t \<and> ench_entries (enchants (item_meta it)) = Inr ts \<and>
     Option.bind (nbt_get t ''tag'') (\<lambda>g. nbt_get g ''ench'') = Some (ListTag ts)"
proof -
  obtain ts where ts: "ench_entries (enchants (item_meta it)) = Inr ts"
    using ench_entries_returns [OF assms(2)] by blast
  obtain tg where tg: "item_tag (item_meta it) = Inr tg" and ne: "tg \<noteq> []"
    and en: "map_of tg ''ench'' = Some (ListTag ts)"
    using item_tag_enchants [OF assms(1) ts] by blast
  have s: "fits_byte (if index \<ge> 27 then index - 27 else index)"
    using assms(5,6) by (simp add: slot_fits)
  have "Option.bind (nbt_get (CompoundTag ([(''Count'', ByteTag (word_of_int (amount it))),
                        (''Damage'', ShortTag (word_of_int (data it))),
                        (''Name'', StringTag (type_id it)),
                        (''WasPickedUp'', ByteTag 0),
                        (''Slot'', ByteTag (word_of_int (if index \<ge> 27 then index - 27 else index)))] @
                       (if tg \<noteq> [] then [(''tag'', CompoundTag tg)] else []))) ''tag'')
          (\<lambda>g. nbt_get g ''ench'') = Some (ListTag ts)"
    using ne en by simp
  then show ?thesis
    using item_nbt_Some [OF assms(3,4) s tg] ts by metis
qed

lemma set_slot_single_ench:
  assumes "fits_byte am" and "fits_short da" and "- 128 \<le> index" and "index \<le> 282"
    and "levels_fit [(name, lvl)]" and "ench_entries [(name, lvl)] = Inr ts"
  shows "\<exists>f'. set_slot f index ty cb am da dn lo (Some [(name, lvl)]) nb = Inr f' \<and>
     Option.bind (Option.bind (ui_items f' index) (\<lambda>e. nbt_get e ''tag''))
       (\<lambda>g. nbt_get g ''ench'') = Some (ListTag ts)"
proof -
  have se: "slot_enchants (Some [(name, lvl)]) = [(name, lvl)]" by (simp add: slot_enchants_def)
  have fit: "item_fits am da (Some [(name, lvl)])"
    using assms(1,2,5) by (simp add: item_fits_def se)
  obtain f' it t where f': "set_slot f index ty cb am da dn lo (Some [(name, lvl)]) nb = Inr f'"
    and t: "item_nbt index (Some it) = Inr t"
    and fl: "amount it = am" "data it = da" "enchants (item_meta it) = [(name, lvl)]"
    and u: "ui_items f' = (ui_items f)(index \<mapsto> t)"
    using set_slot_returns [OF fit assms(3,4), of f ty cb dn lo nb] se by auto
  obtain t' ts' where t': "item_nbt index (Some it) = Inr t'"
    and e': "ench_entries (enchants (item_meta it)) = Inr ts'"
    and b: "Option.bind (nbt_get t' ''tag'') (\<lambda>g. nbt_get g ''ench'') = Some (ListTag ts')"
    using item_nbt_ench [of it index] assms fl by auto
  have "t' = t" using t t' by simp
  moreover have "ts' = ts" using e' assms(6) fl by simp
  ultimately show ?thesis using f' u b by simp
qed

text \<open>
  Claim C9, as stated for every enchantment mapping, fails: with \<open>sharpness\<close> at
  level 70000 the short tag of the level raises \<open>ValueError\<close>; no entry is emitted,
  the call raises and the form is unchanged.
\<close>

theorem enchantment_level_out_of_short_counterexample:
  "set_slot (constructed 0 ''ChestUI'' True) 0 ''minecraft:diamond_sword'' None 1 0 None None
     (Some [(''sharpness'', 70000)]) None = Inl ValueError \<and>
   form_after (constructed 0 ''ChestUI'' True)
     (set_slot (constructed 0 ''ChestUI'' True) 0 ''minecraft:diamond_sword'' None 1 0 None None
        (Some [(''sharpness'', 70000)]) None) = constructed 0 ''ChestUI'' True"
proof -
  have "\<not> item_fits 1 0 (Some [(''sharpness'', 70000)])"
    by (simp add: item_fits_def levels_fit_def slot_enchants_def sharpness_code fits_short_def)
  then have "set_slot (constructed 0 ''ChestUI'' True) 0 ''minecraft:diamond_sword'' None 1 0 None None
     (Some [(''sharpness'', 70000)]) None = Inl ValueError"
    by (intro set_slot_raises) blast
  then show ?thesis by (simp add: form_after_def)
qed

text \<open>
  Claim C9, amended. The item's stack count, aux value and slot number are accepted
  by their tags. For a non-empty enchantment mapping in which every name found in
  the code table has a level accepted by a short tag (-32768 to 65535), the encoded
  slot holds, under \<open>tag\<close>, the list \<open>ench\<close>; its entries are exactly the pairs
  \<open>{id, lvl}\<close> of the configured names found in the table, with the table's code
  and the configured level as 2-byte values. A name absent from the table gives no
  entry and no error, whatever its level. A name of the table with a level that a
  short tag does not accept makes the encoding raise \<open>ValueError\<close>. A slot
  configured through \<open>set_slot\<close> with \<open>sharpness\<close> at level 3 encodes the single
  entry \<open>id = 9, lvl = 3\<close>; configured with a name that is not in the table, even
  at level 70000, it encodes an empty list.
\<close>

theorem enchantment_encoding:
  assumes "fits_byte (amount it)" and "fits_short (data it)"
    and "- 128 \<le> index" and "index \<le> 282"
  shows
   "(enchants (item_meta it) \<noteq> [] \<and> levels_fit (enchants (item_meta it)) \<longrightarrow>
      (\<exists>t ts. item_nbt index (Some it) = Inr t \<and>
         Option.bind (nbt_get t ''tag'') (\<lambda>g. nbt_get g ''ench'') = Some (ListTag ts) \<and>
         set ts =
           {CompoundTag [(''id'', ShortTag (word_of_int i)), (''lvl'', ShortTag (word_of_int l))] | n l i.
              (n, l) \<in> set (enchants (item_meta it)) \<and> map_of ENCHANTMENTS_MAP n = Some i})) \<and>
    (\<not> levels_fit (enchants (item_meta it)) \<longrightarrow> item_nbt index (Some it) = Inl ValueError) \<and>
    (\<exists>f'. set_slot f index ty cb (amount it) (data it) dn lo (Some [(''sharpness'', 3)]) nb = Inr f' \<and>
       Option.bind (Option.bind (ui_items f' index) (\<lambda>e. nbt_get e ''tag''))
         (\<lambda>g. nbt_get g ''ench'') =
       Some (ListTag [CompoundTag [(''id'', ShortTag 9), (''lvl'', ShortTag 3)]])) \<and>
    (\<exists>f'. set_slot f index ty cb (amount it) (data it) dn lo (Some [(''telekinesis'', 70000)]) nb = Inr f' \<and>
       Option.bind (Option.bind (ui_items f' index) (\<lambda>e. nbt_get e ''tag''))
         (\<lambda>g. nbt_get g ''ench'') = Some (ListTag []))"
proof (intro conjI impI)
  assume h: "enchants (item_meta it) \<noteq> [] \<and> levels_fit (enchants (item_meta it))"
  obtain t ts where t: "item_nbt index (Some it) = Inr t"
    and ts: "ench_entries (enchants (item_meta it)) = Inr ts"
    and b: "Option.bind (nbt_get t ''tag'') (\<lambda>g. nbt_get g ''ench'') = Some (ListTag ts)"
    using item_nbt_ench [of it index] h assms by blast
  show "\<exists>t ts. item_nbt index (Some it) = Inr t \<and>
         Option.bind (nbt_get t ''tag'') (\<lambda>g. nbt_get g ''ench'') = Some (ListTag ts) \<and>
         set ts =
           {CompoundTag [(''id'', ShortTag (word_of_int i)), (''lvl'', ShortTag (word_of_int l))] | n l i.
              (n, l) \<in> set (enchants (item_meta it)) \<and> map_of ENCHANTMENTS_MAP n = Some i}"
    using t b ench_entries_set [OF ts] by blast
next
  assume "\<not> levels_fit (enchants (item_meta it))"
  then show "item_nbt index (Some it) = Inl ValueError" by (intro item_nbt_raises) blast
next
  have l: "levels_fit [(''sharpness'', 3)]"
    by (simp add: levels_fit_def fits_short_def)
  have e: "ench_entries [(''sharpness'', 3)] =
             Inr [CompoundTag [(''id'', ShortTag 9), (''lvl'', ShortTag 3)]]"
    by (simp add: sharpness_code ShortTag_init_def fits_short_def)
  show "\<exists>f'. set_slot f index ty cb (amount it) (data it) dn lo (Some [(''sharpness'', 3)]) nb = Inr f' \<and>
       Option.bind (Option.bind (ui_items f' index) (\<lambda>e. nbt_get e ''tag''))
         (\<lambda>g. nbt_get g ''ench'') =
       Some (ListTag [CompoundTag [(''id'', ShortTag 9), (''lvl'', ShortTag 3)]])"
    using set_slot_single_ench [OF assms l e] .
next
  have l: "levels_fit [(''telekinesis'', 70000)]"
    by (simp add: levels_fit_def telekinesis_unknown)
  have e: "ench_entries [(''telekinesis'', 70000)] = Inr []"
    by (simp add: telekinesis_unknown)
  show "\<exists>f'. set_slot f index ty cb (amount it) (data it) dn lo (Some [(''telekinesis'', 70000)]) nb = Inr f' \<and>
       Option.bind (Option.bind (ui_items f' index) (\<lambda>e. nbt_get e ''tag''))
         (\<lambda>g. nbt_get g ''ench'') = Some (ListTag [])"
    using set_slot_single_ench [OF assms l e] .
qed

text \<open>A sword with \<open>sharpness\<close> 3 and an unknown enchantment: one entry.\<close>

theorem enchantment_encoding_witness:
  "item_nbt 0 (Some ((ItemStack_init ''minecraft:diamond_sword'' 1 0)
      \<lparr>item_meta := \<lparr>display_name = None, lore = None,
                      enchants = [(''sharpness'', 3), (''telekinesis'', 1)]\<rparr>\<rparr>)) =
     Inr (CompoundTag [(''Count'', ByteTag 1), (''Damage'', ShortTag 0),
                       (''Name'', StringTag ''minecraft:diamond_sword''),
                       (''WasPickedUp'', ByteTag 0), (''Slot'', ByteTag 0),
                       (''tag'', CompoundTag [(''ench'',
                           ListTag [CompoundTag [(''id'', ShortTag 9), (''lvl'', ShortTag 3)]])])])"
proof -
  let ?it = "(ItemStack_init ''minecraft:diamond_sword'' 1 0)
      \<lparr>item_meta := \<lparr>display_name = None, lore = None,
                      enchants = [(''sharpness'', 3), (''telekinesis'', 1)]\<rparr>\<rparr>"
  have a: "fits_byte (amount ?it)" "fits_short (data ?it)" "- 128 \<le> (0::int)" "(0::int) \<le> 282"
    by (simp_all add: ItemStack_init_def fits_byte_def fits_short_def)
  show ?thesis
    using enchantment_encoding [OF a]
    by (simp add: item_nbt_def ItemStack_init_def item_tag_def has_display_name_def has_lore_def
          has_enchants_def BoolTag_def ByteTag_init_def ShortTag_init_def fits_byte_def
          fits_short_def sharpness_code telekinesis_unknown)
qed


section \<open>Presentation and dispatch\<close>

lemma send_packet_fields:
  "sent (send_packet p pid pkt s) = sent s @ [(unique_id p, pid, pkt)]"
  "forms (send_packet p pid pkt s) = forms s"
  "runtime_forms (send_packet p pid pkt s) = runtime_forms s"
  "scheduled (send_packet p pid pkt s) = scheduled s"
  "invoked (send_packet p pid pkt s) = invoked s"
  by (simp_all add: send_packet_def)

lemma run_delay_task_fields:
  "sent (run_delay_task t dl plg s) = sent s"
  "forms (run_delay_task t dl plg s) = forms s"
  "runtime_forms (run_delay_task t dl plg s) = runtime_forms s"
  "scheduled (run_delay_task t dl plg s) = scheduled s @ [(t, dl, plg)]"
  "invoked (run_delay_task t dl plg s) = invoked s"
  by (simp_all add: run_delay_task_def)

lemma update_chest_block_sent:
  "sent (update_chest_block f p x y z c s) =
     sent s @
     (unique_id p, UpdateBlock,
        UpdateBlockPacket (NetworkBlockPosition x y z)
          (if c then get_block_at p x y z else 741882976) 3 0) #
     (if large_chest f
      then [(unique_id p, UpdateBlock,
               UpdateBlockPacket (NetworkBlockPosition (x + 1) y z)
                 (if c then get_block_at p (x + 1) y z else 741882976) 3 0)]
      else [])"
  by (simp add: update_chest_block_def Let_def send_packet_fields)

lemma update_chest_block_frame:
  "forms (update_chest_block f p x y z c s) = forms s"
  "runtime_forms (update_chest_block f p x y z c s) = runtime_forms s"
  "scheduled (update_chest_block f p x y z c s) = scheduled s"
  "invoked (update_chest_block f p x y z c s) = invoked s"
  by (simp_all add: update_chest_block_def Let_def send_packet_fields)

lemma collect_items_Some:
  "(\<forall>i\<in>set xs. m i \<noteq> None) \<Longrightarrow> collect_items m xs = Some (map (\<lambda>i. the (m i)) xs)"
  by (induction xs) auto

lemma slots_present_first:
  "slots_present f \<Longrightarrow>
   collect_items (ui_items f) (py_range 27) = Some (map (\<lambda>i. the (ui_items f i)) (py_range 27))"
  by (rule collect_items_Some) (auto simp: slots_present_def py_range_def)

lemma slots_present_init: "slots_present (constructed plg ttl large)"
  by (simp add: slots_present_def py_range_def constructed_fields)

lemma slots_present_set_form_slot:
  "slots_present f \<Longrightarrow> slots_present (form_after f (set_form_slot f i item cb))"
proof (cases "set_form_slot f i item cb")
  case (Inl e)
  assume "slots_present f"
  then show ?thesis using Inl by (simp add: form_after_def)
next
  case (Inr f')
  assume "slots_present f"
  then show ?thesis
    using Inr set_form_slot_InrD [OF Inr] by (auto simp: form_after_def slots_present_def)
qed

lemma slots_present_set_title: "slots_present f \<Longrightarrow> slots_present (set_title f ttl)"
  by (simp add: slots_present_def set_title_def)

lemma slots_present_set_slot:
  "slots_present f \<Longrightarrow> slots_present (form_after f (set_slot f i ty cb am da dn lo en nb))"
  using set_slot_item [of f i ty cb am da dn lo en nb] slots_present_set_form_slot by auto

text \<open>
  Claim C10. For a form with \<open>large_chest = False\<close> (whose slots are all present,
  as the constructor leaves them), \<open>send_to\<close> returns normally and sends exactly two
  packets: one block-substitution packet with the chest code at the anchor, and one
  block-metadata packet at the anchor whose tag still carries
  \<open>pairx = anchor x + 1\<close>, \<open>pairz = anchor z\<close> and \<open>pairlead = true\<close>.
\<close>

theorem single_chest_presentation:
  assumes "\<not> large_chest (forms s self)" and "slots_present (forms s self)"
  shows "\<exists>s' block.
     send_to self player s = Inr s' \<and>
     sent s' = sent s @
       [(unique_id player, UpdateBlock,
           UpdateBlockPacket
             (NetworkBlockPosition (block_x player)
                (anchor_y (dimension_type player) (block_y player)) (block_z player))
             741882976 3 0),
        (unique_id player, BlockActorData,
           BlockActorDataPacket
             (NetworkBlockPosition (block_x player)
                (anchor_y (dimension_type player) (block_y player)) (block_z player))
             block)] \<and>
     nbt_get block ''pairx'' = Some (IntTag (block_x player + 1)) \<and>
     nbt_get block ''pairz'' = Some (IntTag (block_z player)) \<and>
     nbt_get block ''pairlead'' = Some (ByteTag 1)"
  using assms
  by (simp add: send_to_def Let_def update_chest_block_actor_def slots_present_first
        update_chest_block_sent update_chest_block_frame send_packet_fields run_delay_task_fields
        block_nbt_init_def BoolTag_def)


text \<open>A single-chest form presented to a player standing at (10, 64, -5).\<close>

theorem single_chest_presentation_witness:
  "\<not> large_chest (forms (initial_state (\<lambda>r. constructed 0 ''Shop'' False)) 0) \<and>
   slots_present (forms (initial_state (\<lambda>r. constructed 0 ''Shop'' False)) 0) \<and>
   (\<exists>s' block.
     send_to 0 \<lparr>unique_id = 1, block_x = 10, block_y = 64, block_z = - 5,
                dimension_type = OVERWORLD, get_block_at = (\<lambda>x y z. 1)\<rparr>
       (initial_state (\<lambda>r. constructed 0 ''Shop'' False)) = Inr s' \<and>
     sent s' =
       [(1, UpdateBlock, UpdateBlockPacket (NetworkBlockPosition 10 68 (- 5)) 741882976 3 0),
        (1, BlockActorData, BlockActorDataPacket (NetworkBlockPosition 10 68 (- 5)) block)] \<and>
     nbt_get block ''pairx'' = Some (IntTag 11) \<and>
     nbt_get block ''pairz'' = Some (IntTag (- 5)) \<and>
     nbt_get block ''pairlead'' = Some (ByteTag 1))"
  using single_chest_presentation [of "initial_state (\<lambda>r. constructed 0 ''Shop'' False)" 0
          "\<lparr>unique_id = 1, block_x = 10, block_y = 64, block_z = - 5,
            dimension_type = OVERWORLD, get_block_at = (\<lambda>x y z. 1)\<rparr>"]
  by (simp add: initial_state_def constructed_fields slots_present_init anchor_y_def)

lemma update_chest_block_actor_sent:
  "\<exists>rest. sent (settle (update_chest_block_actor f p x y z s)) = sent s @ rest"
  by (simp add: update_chest_block_actor_def settle_def Let_def send_packet_fields
        split: option.splits)

lemma send_to_first_packet:
  "\<exists>rest. sent (settle (send_to self player s)) =
     sent s @
     (unique_id player, UpdateBlock,
        UpdateBlockPacket
          (NetworkBlockPosition (block_x player)
             (anchor_y (dimension_type player) (block_y player)) (block_z player))
          741882976 3 0) # rest"
proof -
  let ?y = "anchor_y (dimension_type player) (block_y player)"
  let ?s1 = "update_chest_block (forms s self) player (block_x player) ?y (block_z player) False s"
  let ?r = "update_chest_block_actor (forms s self) player (block_x player) ?y (block_z player) ?s1"
  obtain rest where rest: "sent (settle ?r) = sent ?s1 @ rest"
    using update_chest_block_actor_sent by blast
  have eq: "sent (settle (send_to self player s)) = sent (settle ?r)"
    by (cases ?r) (auto simp: send_to_def Let_def settle_def run_delay_task_fields)
  show ?thesis unfolding eq rest by (simp add: update_chest_block_sent)
qed

text \<open>
  Claim C6. The anchor height is the player's block height plus 4, unless that
  exceeds the ceiling of the dimension (319 overworld, 127 nether, 255 the end);
  then it is the block height minus 3. \<open>send_to\<close> computes it from the dimension
  kind and block height of the player's location: the first packet it sends
  announces the chest block at that height.
\<close>

theorem anchor_height:
  "anchor_y OVERWORLD player_y = (if player_y + 4 > 319 then player_y - 3 else player_y + 4) \<and>
   anchor_y NETHER player_y = (if player_y + 4 > 127 then player_y - 3 else player_y + 4) \<and>
   anchor_y THE_END player_y = (if player_y + 4 > 255 then player_y - 3 else player_y + 4) \<and>
   (\<exists>rest. sent (settle (send_to self player s)) =
     sent s @
     (unique_id player, UpdateBlock,
        UpdateBlockPacket
          (NetworkBlockPosition (block_x player)
             (anchor_y (dimension_type player) (block_y player)) (block_z player))
          741882976 3 0) # rest)"
  using send_to_first_packet [of self player s] by (simp add: anchor_y_def Let_def)

lemma close_and_dispatch_fields:
  "sent (close_and_dispatch p fref d index s) =
     sent s @
     (unique_id p, ContainerClose, ContainerClosePacket 114 0 True) #
     (unique_id p, UpdateBlock,
        UpdateBlockPacket (NetworkBlockPosition (fd_x d) (fd_y d) (fd_z d))
          (get_block_at p (fd_x d) (fd_y d) (fd_z d)) 3 0) #
     (if large_chest (forms s fref)
      then [(unique_id p, UpdateBlock,
               UpdateBlockPacket (NetworkBlockPosition (fd_x d + 1) (fd_y d) (fd_z d))
                 (get_block_at p (fd_x d + 1) (fd_y d) (fd_z d)) 3 0)]
      else [])"
  "runtime_forms (close_and_dispatch p fref d index s) = AList.delete (unique_id p) (runtime_forms s)"
  "scheduled (close_and_dispatch p fref d index s) =
     scheduled s @ [(invoke_callback fref (unique_id p) index, 2, plugin (forms s fref))]"
  "forms (close_and_dispatch p fref d index s) = forms s"
  "invoked (close_and_dispatch p fref d index s) = invoked s"
  by (simp_all add: close_and_dispatch_def Let_def run_delay_task_fields send_packet_fields
        update_chest_block_sent update_chest_block_frame)

lemma find_app:
  "find P (xs @ ys) = (case find P xs of None \<Rightarrow> find P ys | Some x \<Rightarrow> Some x)"
  by (induction xs) auto

lemma actions_loop_find:
  "actions_loop p d acts s =
     map_option (\<lambda>a. close_and_dispatch p (fd_form d) d (source_slot a) s)
       (find (\<lambda>a. action_type a = Take \<and> source_net_id a = 0 \<and>
                   call_backs (forms s (fd_form d)) (source_slot a) \<noteq> None) acts)"
  by (induction acts) (auto simp: Let_def)

lemma requests_loop_find:
  "requests_loop p d reqs s =
     map_option (\<lambda>a. close_and_dispatch p (fd_form d) d (source_slot a) s)
       (find (\<lambda>a. action_type a = Take \<and> source_net_id a = 0 \<and>
                   call_backs (forms s (fd_form d)) (source_slot a) \<noteq> None)
          (concat (map request_actions reqs)))"
proof (induction reqs)
  case Nil
  then show ?case by simp
next
  case (Cons r reqs)
  show ?case
  proof (cases "find (\<lambda>a. action_type a = Take \<and> source_net_id a = 0 \<and>
                   call_backs (forms s (fd_form d)) (source_slot a) \<noteq> None) (request_actions r)")
    case None
    then show ?thesis using Cons by (simp add: actions_loop_find find_app)
  next
    case (Some a)
    then show ?thesis by (simp add: actions_loop_find find_app)
  qed
qed

lemma find_exists: "(\<exists>a\<in>set xs. P a) \<Longrightarrow> \<exists>a. find P xs = Some a \<and> P a"
  by (induction xs) auto

text \<open>
  Claim C1. The player has a registry entry and some action of the packet is a
  take from origin code 0 on a slot with a registered callback. Then, with \<open>a\<close>
  the first such action in scan order, the handler sends exactly one close packet
  (id 114, server-initiated) followed by the packets of one revert with the real
  block ids (\<open>is_close = True\<close>), removes the player's registry entry, and
  schedules exactly one callback invocation, for the slot of \<open>a\<close>, with delay 2.
\<close>

theorem take_with_callback_closes:
  assumes "map_of (runtime_forms s) (unique_id player) = Some d"
    and "\<exists>a\<in>set (concat (map request_actions request_data)).
           action_type a = Take \<and> source_net_id a = 0 \<and>
           call_backs (forms s (fd_form d)) (source_slot a) \<noteq> None"
  shows "\<exists>a. find (\<lambda>a. action_type a = Take \<and> source_net_id a = 0 \<and>
                       call_backs (forms s (fd_form d)) (source_slot a) \<noteq> None)
                (concat (map request_actions request_data)) = Some a \<and>
     sent (handle_chest_callback player request_data s) =
       sent s @
       (unique_id player, ContainerClose, ContainerClosePacket 114 0 True) #
       (unique_id player, UpdateBlock,
          UpdateBlockPacket (NetworkBlockPosition (fd_x d) (fd_y d) (fd_z d))
            (get_block_at player (fd_x d) (fd_y d) (fd_z d)) 3 0) #
       (if large_chest (forms s (fd_form d))
        then [(unique_id player, UpdateBlock,
                 UpdateBlockPacket (NetworkBlockPosition (fd_x d + 1) (fd_y d) (fd_z d))
                   (get_block_at player (fd_x d + 1) (fd_y d) (fd_z d)) 3 0)]
        else []) \<and>
     sent (handle_chest_callback player request_data s) =
       sent (update_chest_block (forms s (fd_form d)) player (fd_x d) (fd_y d) (fd_z d) True
               (send_packet player ContainerClose (ContainerClosePacket 114 0 True) s)) \<and>
     runtime_forms (handle_chest_callback player request_data s) =
       AList.delete (unique_id player) (runtime_forms s) \<and>
     map_of (runtime_forms (handle_chest_callback player request_data s)) (unique_id player) = None \<and>
     scheduled (handle_chest_callback player request_data s) =
       scheduled s @
       [(invoke_callback (fd_form d) (unique_id player) (source_slot a), 2,
         plugin (forms s (fd_form d)))] \<and>
     invoked (handle_chest_callback player request_data s) = invoked s \<and>
     forms (handle_chest_callback player request_data s) = forms s"
proof -
  obtain a where a: "find (\<lambda>a. action_type a = Take \<and> source_net_id a = 0 \<and>
                       call_backs (forms s (fd_form d)) (source_slot a) \<noteq> None)
                (concat (map request_actions request_data)) = Some a"
    using find_exists [OF assms(2)] by blast
  have r: "requests_loop player d request_data s =
             Some (close_and_dispatch player (fd_form d) d (source_slot a) s)"
    unfolding requests_loop_find a by simp
  have h: "handle_chest_callback player request_data s =
             close_and_dispatch player (fd_form d) d (source_slot a) s"
    by (simp add: handle_chest_callback_def assms(1) r)
  show ?thesis
    unfolding h
  proof (intro exI [of _ a] conjI)
    show "find (\<lambda>a. action_type a = Take \<and> source_net_id a = 0 \<and>
                       call_backs (forms s (fd_form d)) (source_slot a) \<noteq> None)
                (concat (map request_actions request_data)) = Some a"
      by (rule a)
  qed (simp_all add: close_and_dispatch_fields update_chest_block_sent send_packet_fields
         delete_conv')
qed

text \<open>
  Claim C7. The player has a registry entry and every take action from origin
  code 0 in the packet targets a slot with no registered callback. Then the handler
  leaves the state as it is: no packet is sent, the registry is unchanged and
  nothing is scheduled.
\<close>

theorem take_without_callback_keeps_open:
  assumes "map_of (runtime_forms s) (unique_id player) = Some d"
    and "\<forall>a\<in>set (concat (map request_actions request_data)).
           action_type a = Take \<and> source_net_id a = 0 \<longrightarrow>
           call_backs (forms s (fd_form d)) (source_slot a) = None"
  shows "handle_chest_callback player request_data s = s \<and>
     sent (handle_chest_callback player request_data s) = sent s \<and>
     runtime_forms (handle_chest_callback player request_data s) = runtime_forms s \<and>
     scheduled (handle_chest_callback player request_data s) = scheduled s"
proof -
  have "find (\<lambda>a. action_type a = Take \<and> source_net_id a = 0 \<and>
                       call_backs (forms s (fd_form d)) (source_slot a) \<noteq> None)
                (concat (map request_actions request_data)) = None"
    using assms(2) by (auto simp: find_None_iff)
  then have "requests_loop player d request_data s = None"
    unfolding requests_loop_find by simp
  then have "handle_chest_callback player request_data s = s"
    by (simp add: handle_chest_callback_def assms(1))
  then show ?thesis by simp
qed


lemma example_form_built:
  "\<exists>f1. set_slot (constructed 0 ''Shop'' True) 10 ''minecraft:diamond'' (Some 7) 5 0
           None None None None = Inr f1 \<and>
        set_slot f1 11 ''minecraft:emerald'' (Some 8) 1 0 None None None None = Inr example_form \<and>
        call_backs f1 = [10 \<mapsto> 7] \<and> large_chest f1 \<and> plugin f1 = 0 \<and> slots_present f1"
proof -
  have fit: "item_fits 5 0 None" "item_fits 1 0 None"
    by (simp_all add: item_fits_def fits_byte_def fits_short_def levels_fit_def slot_enchants_def)
  obtain f1 where f1: "set_slot (constructed 0 ''Shop'' True) 10 ''minecraft:diamond'' (Some 7) 5 0
           None None None None = Inr f1"
    and c1: "call_backs f1 = [10 \<mapsto> 7]" "large_chest f1" "plugin f1 = 0"
    using set_slot_returns [OF fit(1), of 10 "constructed 0 ''Shop'' True" "''minecraft:diamond''"
            "Some 7" None None None]
    by (auto simp: constructed_fields)
  have p1: "slots_present f1"
    using slots_present_set_slot [OF slots_present_init, of 0 "''Shop''" True 10
            "''minecraft:diamond''" "Some 7" 5 0 None None None None] f1
    by (simp add: form_after_def)
  obtain f2 where f2: "set_slot f1 11 ''minecraft:emerald'' (Some 8) 1 0 None None None None = Inr f2"
    using set_slot_returns [OF fit(2), of 11 f1 "''minecraft:emerald''" "Some 8" None None None]
    by auto
  have "example_form = f2" by (simp add: example_form_def f1 f2 form_after_def)
  then show ?thesis using f1 f2 c1 p1 by simp
qed

lemma example_form_fields:
  "call_backs example_form = [10 \<mapsto> 7, 11 \<mapsto> 8]"
  "large_chest example_form"
  "plugin example_form = 0"
proof -
  obtain f1 where f2: "set_slot f1 11 ''minecraft:emerald'' (Some 8) 1 0 None None None None =
                         Inr example_form"
    and c1: "call_backs f1 = [10 \<mapsto> 7]" "large_chest f1" "plugin f1 = 0"
    using example_form_built by blast
  have fit: "item_fits 1 0 None"
    by (simp add: item_fits_def fits_byte_def fits_short_def levels_fit_def slot_enchants_def)
  have "call_backs example_form = (call_backs f1)(11 \<mapsto> 8) \<and>
        large_chest example_form = large_chest f1 \<and> plugin example_form = plugin f1"
    using set_slot_returns [OF fit, of 11 f1 "''minecraft:emerald''" "Some 8" None None None] f2
    by auto
  then show "call_backs example_form = [10 \<mapsto> 7, 11 \<mapsto> 8]"
    and "large_chest example_form" and "plugin example_form = 0"
    using c1 by simp_all
qed

lemma slots_present_example_form: "slots_present example_form"
proof -
  obtain f1 where f2: "set_slot f1 11 ''minecraft:emerald'' (Some 8) 1 0 None None None None =
                         Inr example_form"
    and p1: "slots_present f1"
    using example_form_built by blast
  show ?thesis
    using slots_present_set_slot [OF p1, of 11 "''minecraft:emerald''" "Some 8" 1 0
            None None None None] f2
    by (simp add: form_after_def)
qed

text \<open>
  Three take actions, the second and third on slots with callbacks: one close, one
  revert of both blocks, and the callback of slot 10 only.
\<close>

theorem take_with_callback_closes_witness:
  "map_of (runtime_forms example_state) (unique_id example_player) = Some (FormData 0 10 68 (- 5)) \<and>
   (\<exists>a\<in>set (concat (map request_actions
        [\<lparr>request_actions = [\<lparr>action_type = Take, source_net_id = 0, source_slot = 5\<rparr>,
                              \<lparr>action_type = Take, source_net_id = 0, source_slot = 10\<rparr>]\<rparr>,
         \<lparr>request_actions = [\<lparr>action_type = Take, source_net_id = 0, source_slot = 11\<rparr>]\<rparr>])).
      action_type a = Take \<and> source_net_id a = 0 \<and>
      call_backs (forms example_state (fd_form (FormData 0 10 68 (- 5)))) (source_slot a) \<noteq> None) \<and>
   sent (handle_chest_callback example_player
        [\<lparr>request_actions = [\<lparr>action_type = Take, source_net_id = 0, source_slot = 5\<rparr>,
                              \<lparr>action_type = Take, source_net_id = 0, source_slot = 10\<rparr>]\<rparr>,
         \<lparr>request_actions = [\<lparr>action_type = Take, source_net_id = 0, source_slot = 11\<rparr>]\<rparr>]
        example_state) =
     [(1, ContainerClose, ContainerClosePacket 114 0 True),
      (1, UpdateBlock, UpdateBlockPacket (NetworkBlockPosition 10 68 (- 5)) 110 3 0),
      (1, UpdateBlock, UpdateBlockPacket (NetworkBlockPosition 11 68 (- 5)) 111 3 0)] \<and>
   runtime_forms (handle_chest_callback example_player
        [\<lparr>request_actions = [\<lparr>action_type = Take, source_net_id = 0, source_slot = 5\<rparr>,
                              \<lparr>action_type = Take, source_net_id = 0, source_slot = 10\<rparr>]\<rparr>,
         \<lparr>request_actions = [\<lparr>action_type = Take, source_net_id = 0, source_slot = 11\<rparr>]\<rparr>]
        example_state) = [] \<and>
   scheduled (handle_chest_callback example_player
        [\<lparr>request_actions = [\<lparr>action_type = Take, source_net_id = 0, source_slot = 5\<rparr>,
                              \<lparr>action_type = Take, source_net_id = 0, source_slot = 10\<rparr>]\<rparr>,
         \<lparr>request_actions = [\<lparr>action_type = Take, source_net_id = 0, source_slot = 11\<rparr>]\<rparr>]
        example_state) = [(invoke_callback 0 1 10, 2, 0)]"
proof -
  have h1: "map_of (runtime_forms example_state) (unique_id example_player) = Some (FormData 0 10 68 (- 5))"
    by (simp add: example_state_def example_player_def)
  have h2: "\<exists>a\<in>set (concat (map request_actions
        [\<lparr>request_actions = [\<lparr>action_type = Take, source_net_id = 0, source_slot = 5\<rparr>,
                              \<lparr>action_type = Take, source_net_id = 0, source_slot = 10\<rparr>]\<rparr>,
         \<lparr>request_actions = [\<lparr>action_type = Take, source_net_id = 0, source_slot = 11\<rparr>]\<rparr>])).
      action_type a = Take \<and> source_net_id a = 0 \<and>
      call_backs (forms example_state (fd_form (FormData 0 10 68 (- 5)))) (source_slot a) \<noteq> None"
    by (simp add: example_state_def example_form_fields)
  show ?thesis
    using h1 h2 take_with_callback_closes [OF h1 h2]
    by (simp add: example_state_def example_player_def example_form_fields)
qed

text \<open>A take on slot 5, which has no callback, and a place on slot 10.\<close>

theorem take_without_callback_keeps_open_witness:
  "map_of (runtime_forms example_state) (unique_id example_player) = Some (FormData 0 10 68 (- 5)) \<and>
   call_backs (forms example_state 0) 5 = None \<and>
   sent (handle_chest_callback example_player
        [\<lparr>request_actions = [\<lparr>action_type = Take, source_net_id = 0, source_slot = 5\<rparr>,
                              \<lparr>action_type = Place, source_net_id = 0, source_slot = 10\<rparr>]\<rparr>]
        example_state) = [] \<and>
   runtime_forms (handle_chest_callback example_player
        [\<lparr>request_actions = [\<lparr>action_type = Take, source_net_id = 0, source_slot = 5\<rparr>,
                              \<lparr>action_type = Place, source_net_id = 0, source_slot = 10\<rparr>]\<rparr>]
        example_state) = [(1, FormData 0 10 68 (- 5))]"
proof -
  have h1: "map_of (runtime_forms example_state) (unique_id example_player) = Some (FormData 0 10 68 (- 5))"
    by (simp add: example_state_def example_player_def)
  have h2: "\<forall>a\<in>set (concat (map request_actions
        [\<lparr>request_actions = [\<lparr>action_type = Take, source_net_id = 0, source_slot = 5\<rparr>,
                              \<lparr>action_type = Place, source_net_id = 0, source_slot = 10\<rparr>]\<rparr>])).
      action_type a = Take \<and> source_net_id a = 0 \<longrightarrow>
      call_backs (forms example_state (fd_form (FormData 0 10 68 (- 5)))) (source_slot a) = None"
    by (simp add: example_state_def example_form_fields)
  show ?thesis
    using h1 take_without_callback_keeps_open [OF h1 h2]
    by (simp add: example_state_def example_form_fields)
qed


lemma update_chest_block_actor_runtime_forms:
  "runtime_forms (settle (update_chest_block_actor f p x y z s)) = runtime_forms s"
  by (simp add: update_chest_block_actor_def settle_def Let_def send_packet_fields
        split: option.splits)

lemma send_to_runtime_forms:
  "runtime_forms (settle (send_to self p s)) = runtime_forms s"
proof -
  let ?s1 = "update_chest_block (forms s self) p (block_x p)
               (anchor_y (dimension_type p) (block_y p)) (block_z p) False s"
  let ?r = "update_chest_block_actor (forms s self) p (block_x p)
               (anchor_y (dimension_type p) (block_y p)) (block_z p) ?s1"
  have "runtime_forms (settle ?r) = runtime_forms s"
    by (simp add: update_chest_block_actor_runtime_forms update_chest_block_frame)
  then show ?thesis
    by (cases ?r) (auto simp: send_to_def Let_def settle_def run_delay_task_fields)
qed

lemma handle_chest_callback_runtime_forms:
  "runtime_forms (handle_chest_callback p reqs s) = runtime_forms s \<or>
   runtime_forms (handle_chest_callback p reqs s) = AList.delete (unique_id p) (runtime_forms s)"
  by (auto simp: handle_chest_callback_def requests_loop_find close_and_dispatch_fields
        split: option.splits)

lemma handle_chest_close_runtime_forms:
  "runtime_forms (handle_chest_close p cid s) = runtime_forms s \<or>
   runtime_forms (handle_chest_close p cid s) = AList.delete (unique_id p) (runtime_forms s)"
  by (auto simp: handle_chest_close_def Let_def update_chest_block_frame split: option.splits)

lemma run_task_runtime_forms:
  "runtime_forms (settle (run_task t s)) = runtime_forms s \<or>
   (\<exists>k v. runtime_forms (settle (run_task t s)) = AList.update k v (runtime_forms s))"
  by (cases t) (auto simp: settle_def add_runtime_form_def send_packet_to_def split: option.splits)

lemma step_keys_distinct: "keys_distinct s \<Longrightarrow> keys_distinct (step ev s)"
proof (cases ev)
  case (EvSetTitle r t)
  assume "keys_distinct s"
  then show ?thesis using EvSetTitle by (simp add: keys_distinct_def)
next
  case (EvSetSlot r i ty cb am da dn lo en nb)
  assume "keys_distinct s"
  then show ?thesis using EvSetSlot by (simp add: keys_distinct_def)
next
  case (EvSendTo r p)
  assume "keys_distinct s"
  then show ?thesis using EvSendTo by (simp add: keys_distinct_def send_to_runtime_forms)
next
  case (EvReceive p payload)
  assume d: "keys_distinct s"
  show ?thesis
  proof (cases payload)
    case (ItemStackRequestPayload reqs)
    then show ?thesis
      using d EvReceive handle_chest_callback_runtime_forms [of p reqs s]
      by (auto simp: keys_distinct_def on_incoming_packet_def distinct_delete)
  next
    case (ContainerClosePayload cid)
    then show ?thesis
      using d EvReceive handle_chest_close_runtime_forms [of p cid s]
      by (auto simp: keys_distinct_def on_incoming_packet_def distinct_delete)
  next
    case OtherPayload
    then show ?thesis using d EvReceive by (simp add: on_incoming_packet_def)
  qed
next
  case (EvRunTask n)
  assume d: "keys_distinct s"
  show ?thesis
  proof (cases "n < length (scheduled s)")
    case True
    let ?s0 = "s\<lparr>scheduled := take n (scheduled s) @ drop (Suc n) (scheduled s)\<rparr>"
    have "runtime_forms ?s0 = runtime_forms s" by simp
    then show ?thesis
      using d EvRunTask True run_task_runtime_forms [of "fst (scheduled s ! n)" ?s0]
      by (auto simp: keys_distinct_def distinct_update)
  next
    case False
    then show ?thesis using d EvRunTask by simp
  qed
qed

lemma run_keys_distinct: "keys_distinct s \<Longrightarrow> keys_distinct (run evs s)"
  unfolding run_def by (induction evs arbitrary: s) (auto simp: step_keys_distinct)

lemma distinct_keys_filter: "distinct (map fst al) \<Longrightarrow> length (filter (\<lambda>e. fst e = k) al) \<le> 1"
  by (induction al) (auto simp: filter_empty_conv image_iff)

lemma filter_update_one:
  "distinct (map fst al) \<Longrightarrow> length (filter (\<lambda>e. fst e = k) (AList.update k v al)) = 1"
proof -
  assume d: "distinct (map fst al)"
  have "distinct (map fst (AList.update k v al))" using d by (rule distinct_update)
  then have le: "length (filter (\<lambda>e. fst e = k) (AList.update k v al)) \<le> 1"
    by (rule distinct_keys_filter)
  have "(k, v) \<in> set (AList.update k v al)"
    by (rule map_of_SomeD) (simp add: update_conv')
  then have "filter (\<lambda>e. fst e = k) (AList.update k v al) \<noteq> []"
    by (force simp: filter_empty_conv)
  then have "length (filter (\<lambda>e. fst e = k) (AList.update k v al)) \<noteq> 0" by simp
  with le show ?thesis by linarith
qed

lemma length_alist_update:
  "length (AList.update k v al) = (if k \<in> fst ` set al then length al else length al + 1)"
  by (induction al) auto

text \<open>
  Claim C8. After any sequence of events from the initial state, the registry has
  at most one entry for each player identity. Running \<open>open_chest\<close> for a player
  then leaves exactly one entry for that player, the new one; when the player
  already had an entry, the registry keeps its length.
\<close>

theorem registry_one_entry_per_player:
  "length (filter (\<lambda>e. fst e = uuid) (runtime_forms (run evs (initial_state fs)))) \<le> 1 \<and>
   (\<exists>s'. run_task (open_chest self uuid x y z) (run evs (initial_state fs)) = Inr s' \<and>
      map_of (runtime_forms s') uuid = Some (FormData self x y z) \<and>
      length (filter (\<lambda>e. fst e = uuid) (runtime_forms s')) = 1 \<and>
      length (runtime_forms s') =
        (if uuid \<in> fst ` set (runtime_forms (run evs (initial_state fs)))
         then length (runtime_forms (run evs (initial_state fs)))
         else length (runtime_forms (run evs (initial_state fs))) + 1))"
proof -
  have "keys_distinct (initial_state fs)" by (simp add: keys_distinct_def initial_state_def)
  then have "keys_distinct (run evs (initial_state fs))" by (rule run_keys_distinct)
  then have d: "distinct (map fst (runtime_forms (run evs (initial_state fs))))"
    by (simp add: keys_distinct_def)
  show ?thesis
    using d distinct_keys_filter [OF d, of uuid]
    by (simp add: add_runtime_form_def send_packet_to_def update_conv' filter_update_one
          length_alist_update)
qed

lemma slots_present_second:
  "slots_present f \<Longrightarrow>
   collect_items (ui_items f) (map (\<lambda>index. index + 27) (py_range 27)) =
     Some (map (\<lambda>i. the (ui_items f i)) (map (\<lambda>index. index + 27) (py_range 27)))"
  by (rule collect_items_Some) (auto simp: slots_present_def py_range_def)

lemma send_to_returns:
  assumes "slots_present (forms s self)"
  shows "\<exists>s'. send_to self p s = Inr s' \<and>
     forms s' = forms s \<and> runtime_forms s' = runtime_forms s \<and> invoked s' = invoked s \<and>
     scheduled s' = scheduled s @
       [(open_chest self (unique_id p) (block_x p)
           (anchor_y (dimension_type p) (block_y p)) (block_z p), 10, plugin (forms s self))]"
  using assms
  by (simp add: send_to_def Let_def update_chest_block_actor_def slots_present_first
        slots_present_second update_chest_block_frame send_packet_fields run_delay_task_fields)

text \<open>Presenting twice to the same player: the second entry replaces the first.\<close>

theorem registry_one_entry_per_player_witness:
  "length (filter (\<lambda>e. fst e = 1)
     (runtime_forms (run [EvSendTo 0 example_player, EvRunTask 0]
        (initial_state (\<lambda>r. example_form))))) \<le> 1 \<and>
   (\<exists>s'. run_task (open_chest 0 1 11 70 0)
            (run [EvSendTo 0 example_player, EvRunTask 0] (initial_state (\<lambda>r. example_form))) = Inr s' \<and>
      runtime_forms s' = [(1, FormData 0 11 70 0)])"
proof -
  let ?s0 = "initial_state (\<lambda>r. example_form)"
  have sp: "slots_present (forms ?s0 0)"
    by (simp add: initial_state_def slots_present_example_form)
  obtain s1 where s1: "send_to 0 example_player ?s0 = Inr s1"
    and rf: "runtime_forms s1 = []"
    and sc: "scheduled s1 = [(open_chest 0 1 10 68 (- 5), 10, 0)]"
    using send_to_returns [OF sp, of example_player]
    by (auto simp: initial_state_def example_player_def example_form_fields anchor_y_def)
  have r: "runtime_forms (run [EvSendTo 0 example_player, EvRunTask 0] ?s0) =
             [(1, FormData 0 10 68 (- 5))]"
    by (simp add: run_def s1 settle_def rf sc add_runtime_form_def send_packet_to_def)
  show ?thesis
    using registry_one_entry_per_player [of 1 "[EvSendTo 0 example_player, EvRunTask 0]"
            "\<lambda>r. example_form" 0 11 70 0]
    by (simp add: r add_runtime_form_def send_packet_to_def)
qed




end
